theory Spec2Isabelle
  imports Complex_Main
begin

section \<open>Python values, errors and the synchronized database\<close>

text \<open>
  Every \<^verbatim>\<open>raise\<close> of the modelled code is a value: a function that can raise returns
  \<open>py_error + 'a\<close>, with \<open>Inl\<close> for the exception.
\<close>

datatype py_error = ValueError | OverflowError | ZeroDivisionError | IndexError

text \<open>The values a key of the synchronized database holds in the modelled code.\<close>

datatype py_value = PyNone | PyInt int | PyStr string

text \<open>
  The database behind \<^verbatim>\<open>SynchronizedData\<close>: a dictionary from key names to values.
  \<^verbatim>\<open>db.get(key, default)\<close> falls back to the default, \<^verbatim>\<open>db.get_strict(key)\<close>
  raises \<^verbatim>\<open>ValueError\<close> for a key that is not set.
\<close>

type_synonym AbciAppDB = "string \<Rightarrow> py_value option"

definition db_get :: "AbciAppDB \<Rightarrow> string \<Rightarrow> py_value \<Rightarrow> py_value" where
  "db_get d k dflt = (case d k of None \<Rightarrow> dflt | Some v \<Rightarrow> v)"

definition get_strict :: "AbciAppDB \<Rightarrow> string \<Rightarrow> py_error + py_value" where
  "get_strict d k = (case d k of None \<Rightarrow> Inl ValueError | Some v \<Rightarrow> Inr v)"

text \<open>Python's \<^verbatim>\<open>str(v)\<close> on the values above; integers print in decimal.\<close>

fun str_of_nat :: "nat \<Rightarrow> string" where
  "str_of_nat n =
     (if n < 10 then [char_of (48 + n)]
      else str_of_nat (n div 10) @ [char_of (48 + n mod 10)])"

declare str_of_nat.simps [simp del]

definition py_str :: "py_value \<Rightarrow> string" where
  "py_str v =
     (case v of
        PyNone \<Rightarrow> ''None''
      | PyStr s \<Rightarrow> s
      | PyInt i \<Rightarrow> (if i < 0 then CHR ''-'' # str_of_nat (nat (- i)) else str_of_nat (nat i)))"

section \<open>The staking skill: \<^verbatim>\<open>staking_abci/rounds.py\<close>\<close>

datatype Event =
    DONE
  | ROUND_TIMEOUT
  | NO_MAJORITY
  | SERVICE_NOT_STAKED
  | SERVICE_EVICTED
  | NEXT_CHECKPOINT_NOT_REACHED_YET

text \<open>
  \<^verbatim>\<open>StakingState\<close> is the enumeration of the staking contract package; the skills name its
  members \<^verbatim>\<open>UNSTAKED\<close>, \<^verbatim>\<open>STAKED\<close> and \<^verbatim>\<open>EVICTED\<close>. The call
  \<^verbatim>\<open>StakingState(v)\<close> looks a member up by its value and raises \<^verbatim>\<open>ValueError\<close> when no
  member has it. The table of member values belongs to that package, so the lookup is a
  parameter \<open>by_value\<close> of everything that converts.
\<close>

datatype StakingState = UNSTAKED | STAKED | EVICTED

definition StakingState_call ::
  "(py_value \<Rightarrow> StakingState option) \<Rightarrow> py_value \<Rightarrow> py_error + StakingState" where
  "StakingState_call by_value v =
     (case by_value v of None \<Rightarrow> Inl ValueError | Some s \<Rightarrow> Inr s)"

text \<open>The properties of \<^verbatim>\<open>SynchronizedData\<close>, each a read of the database.\<close>

definition tx_submitter :: "AbciAppDB \<Rightarrow> py_error + string" where
  "tx_submitter d =
     (case get_strict d ''tx_submitter'' of Inl e \<Rightarrow> Inl e | Inr v \<Rightarrow> Inr (py_str v))"

definition service_staking_state ::
  "(py_value \<Rightarrow> StakingState option) \<Rightarrow> AbciAppDB \<Rightarrow> py_error + StakingState" where
  "service_staking_state by_value d =
     StakingState_call by_value (db_get d ''service_staking_state'' (PyInt 0))"

text \<open>
  \<^verbatim>\<open>most_voted_tx_hash\<close> is inherited from the synchronized data of the transaction
  settlement skill; it is read with the strict getter, as \<^verbatim>\<open>tx_submitter\<close> is.
\<close>

definition most_voted_tx_hash :: "AbciAppDB \<Rightarrow> py_error + py_value" where
  "most_voted_tx_hash d = get_strict d ''most_voted_tx_hash''"

text \<open>
  \<^verbatim>\<open>CallCheckpointRound.end_block\<close>. The argument \<open>res\<close> is what
  \<^verbatim>\<open>super().end_block()\<close> returned: \<open>None\<close>, or the merged data with the event of the
  generic quorum computation.
\<close>

definition CallCheckpointRound_end_block ::
  "(py_value \<Rightarrow> StakingState option) \<Rightarrow> (AbciAppDB \<times> Event) option
     \<Rightarrow> py_error + (AbciAppDB \<times> Event) option" where
  "CallCheckpointRound_end_block by_value res =
     (case res of
        None \<Rightarrow> Inr None
      | Some (synced_data, event) \<Rightarrow>
          if event \<noteq> DONE then Inr res
          else
            (case service_staking_state by_value synced_data of
               Inl e \<Rightarrow> Inl e
             | Inr st \<Rightarrow>
                 if st = UNSTAKED then Inr (Some (synced_data, SERVICE_NOT_STAKED))
                 else if st = EVICTED then Inr (Some (synced_data, SERVICE_EVICTED))
                 else
                   (case most_voted_tx_hash synced_data of
                      Inl e \<Rightarrow> Inl e
                    | Inr h \<Rightarrow>
                        if h = PyNone
                        then Inr (Some (synced_data, NEXT_CHECKPOINT_NOT_REACHED_YET))
                        else Inr res)))"

text \<open>The rounds of \<^verbatim>\<open>StakingAbciApp\<close> and its declarations, as the class body lists them.\<close>

datatype StakingRound =
    CallCheckpointRound
  | CheckpointCallPreparedRound
  | FinishedStakingRound
  | ServiceEvictedRound

definition StakingAbciApp_initial_round_cls :: StakingRound where
  "StakingAbciApp_initial_round_cls = CallCheckpointRound"

definition StakingAbciApp_transition_function ::
  "(StakingRound \<times> (Event \<times> StakingRound) list) list" where
  "StakingAbciApp_transition_function =
     [(CallCheckpointRound,
         [(DONE, CheckpointCallPreparedRound),
          (SERVICE_NOT_STAKED, FinishedStakingRound),
          (SERVICE_EVICTED, ServiceEvictedRound),
          (NEXT_CHECKPOINT_NOT_REACHED_YET, FinishedStakingRound),
          (ROUND_TIMEOUT, CallCheckpointRound),
          (NO_MAJORITY, CallCheckpointRound)]),
      (CheckpointCallPreparedRound, []),
      (FinishedStakingRound, []),
      (ServiceEvictedRound, [])]"

definition StakingAbciApp_cross_period_persisted_keys :: "string set" where
  "StakingAbciApp_cross_period_persisted_keys = {''service_staking_state''}"

definition StakingAbciApp_final_states :: "StakingRound set" where
  "StakingAbciApp_final_states =
     {CheckpointCallPreparedRound, FinishedStakingRound, ServiceEvictedRound}"

definition StakingAbciApp_db_pre_conditions :: "(StakingRound \<times> string set) list" where
  "StakingAbciApp_db_pre_conditions = [(CallCheckpointRound, {})]"

text \<open>
  The events \<^verbatim>\<open>CallCheckpointRound\<close> can hand to the application: what its
  \<^verbatim>\<open>end_block\<close> returns when the generic computation ends with the round's
  \<^verbatim>\<open>done_event\<close> or \<^verbatim>\<open>no_majority_event\<close>, and the timeout event the driver raises
  for the round.
\<close>

definition CallCheckpointRound_done_event :: Event where
  "CallCheckpointRound_done_event = DONE"

definition CallCheckpointRound_no_majority_event :: Event where
  "CallCheckpointRound_no_majority_event = NO_MAJORITY"

inductive CallCheckpointRound_produces :: "Event \<Rightarrow> bool" where
  from_end_block:
    "ev0 = CallCheckpointRound_done_event \<or> ev0 = CallCheckpointRound_no_majority_event \<Longrightarrow>
     CallCheckpointRound_end_block by_value (Some (d0, ev0)) = Inr (Some (d, ev)) \<Longrightarrow>
     CallCheckpointRound_produces ev"
| from_timeout: "CallCheckpointRound_produces ROUND_TIMEOUT"

text \<open>Looking a round and an event up in a transition function (two dictionary reads).\<close>

definition transition :: "('r \<times> ('e \<times> 'r) list) list \<Rightarrow> 'r \<Rightarrow> 'e \<Rightarrow> 'r option" where
  "transition tf r ev = (case map_of tf r of None \<Rightarrow> None | Some row \<Rightarrow> map_of row ev)"

definition events_of :: "('r \<times> ('e \<times> 'r) list) list \<Rightarrow> 'r \<Rightarrow> 'e set" where
  "events_of tf r = (case map_of tf r of None \<Rightarrow> {} | Some row \<Rightarrow> fst ` set row)"

section \<open>The multiplexer skill: \<^verbatim>\<open>tx_settlement_multiplexer_abci/rounds.py\<close>\<close>

datatype MultiplexerEvent =
    DECISION_REQUESTING_DONE
  | BET_PLACEMENT_DONE
  | ROUND_TIMEOUT_mux
  | UNRECOGNIZED

text \<open>
  \<^verbatim>\<open>PostTxSettlementRound.end_block\<close>. The two keys of \<^verbatim>\<open>submitter_to_event\<close> are the
  auto round ids of \<^verbatim>\<open>DecisionRequestRound\<close> and \<^verbatim>\<open>BetPlacementRound\<close>, parameters
  here; the dictionary display keeps the later entry when two keys are equal, and
  \<^verbatim>\<open>dict.get\<close> falls back to \<^verbatim>\<open>UNRECOGNIZED\<close>.
\<close>

definition submitter_to_event :: "string \<Rightarrow> string \<Rightarrow> string \<Rightarrow> MultiplexerEvent option" where
  "submitter_to_event decision_request_id bet_placement_id =
     [decision_request_id \<mapsto> DECISION_REQUESTING_DONE, bet_placement_id \<mapsto> BET_PLACEMENT_DONE]"

definition PostTxSettlementRound_end_block ::
  "string \<Rightarrow> string \<Rightarrow> AbciAppDB \<Rightarrow> py_error + (AbciAppDB \<times> MultiplexerEvent) option" where
  "PostTxSettlementRound_end_block decision_request_id bet_placement_id db =
     (let synced_data = db in
      case tx_submitter synced_data of
        Inl e \<Rightarrow> Inl e
      | Inr s \<Rightarrow>
          Inr (Some (synced_data,
                 case submitter_to_event decision_request_id bet_placement_id s of
                   None \<Rightarrow> UNRECOGNIZED
                 | Some event \<Rightarrow> event)))"

datatype MultiplexerRound =
    PostTxSettlementRound
  | FinishedDecisionRequestTxRound
  | FinishedBetPlacementTxRound
  | FailedMultiplexerRound

definition TxSettlementMultiplexerAbciApp_initial_round_cls :: MultiplexerRound where
  "TxSettlementMultiplexerAbciApp_initial_round_cls = PostTxSettlementRound"

definition TxSettlementMultiplexerAbciApp_transition_function ::
  "(MultiplexerRound \<times> (MultiplexerEvent \<times> MultiplexerRound) list) list" where
  "TxSettlementMultiplexerAbciApp_transition_function =
     [(PostTxSettlementRound,
         [(DECISION_REQUESTING_DONE, FinishedDecisionRequestTxRound),
          (BET_PLACEMENT_DONE, FinishedBetPlacementTxRound),
          (ROUND_TIMEOUT_mux, PostTxSettlementRound),
          (UNRECOGNIZED, FailedMultiplexerRound)]),
      (FinishedDecisionRequestTxRound, []),
      (FinishedBetPlacementTxRound, []),
      (FailedMultiplexerRound, [])]"

definition TxSettlementMultiplexerAbciApp_final_states :: "MultiplexerRound set" where
  "TxSettlementMultiplexerAbciApp_final_states =
     {FinishedDecisionRequestTxRound, FinishedBetPlacementTxRound, FailedMultiplexerRound}"

definition TxSettlementMultiplexerAbciApp_db_pre_conditions ::
  "(MultiplexerRound \<times> string set) list" where
  "TxSettlementMultiplexerAbciApp_db_pre_conditions =
     [(PostTxSettlementRound, {''tx_submitter''})]"

text \<open>
  The class body of \<^verbatim>\<open>TxSettlementMultiplexerAbciApp\<close> declares no
  \<^verbatim>\<open>cross_period_persisted_keys\<close>: its declared set of such keys is empty.
\<close>

definition TxSettlementMultiplexerAbciApp_cross_period_persisted_keys :: "string set" where
  "TxSettlementMultiplexerAbciApp_cross_period_persisted_keys = {}"

inductive PostTxSettlementRound_produces :: "MultiplexerEvent \<Rightarrow> bool" where
  mux_from_end_block:
    "PostTxSettlementRound_end_block decision_request_id bet_placement_id db = Inr (Some (d, ev)) \<Longrightarrow>
     PostTxSettlementRound_produces ev"
| mux_from_timeout: "PostTxSettlementRound_produces ROUND_TIMEOUT_mux"

text \<open>
  The declared pre-condition keys of an application's initial round
  (\<^verbatim>\<open>db_pre_conditions[initial_round_cls]\<close>; a round without an entry requires nothing).
\<close>

definition initial_pre_conditions :: "('r \<times> string set) list \<Rightarrow> 'r \<Rightarrow> string set" where
  "initial_pre_conditions pre r = (case map_of pre r of None \<Rightarrow> {} | Some ks \<Rightarrow> ks)"

subsection \<open>End of block on a round object\<close>

text \<open>
  A round object holds the payloads collected so far and the synchronized data it was
  created with. \<^verbatim>\<open>end_block\<close> is a method: it may change the object, so it returns the
  object as it leaves it beside its result.

  \<^verbatim>\<open>CallCheckpointRound.end_block\<close> first runs \<^verbatim>\<open>super().end_block()\<close>, the generic quorum
  computation of \<^verbatim>\<open>CollectSameUntilThresholdRound\<close>. That method belongs to the round
  framework; here it is the parameter \<open>super_end_block\<close>, a state transformer on round
  objects. \<^verbatim>\<open>PostTxSettlementRound.end_block\<close> does not call it.
\<close>

record AbstractRound =
  synchronized_data :: AbciAppDB
  collection :: "(string \<times> py_value list) list"

definition CallCheckpointRound_end_block_self ::
  "(py_value \<Rightarrow> StakingState option)
     \<Rightarrow> ('r \<Rightarrow> (AbciAppDB \<times> Event) option \<times> 'r)
     \<Rightarrow> 'r \<Rightarrow> (py_error + (AbciAppDB \<times> Event) option) \<times> 'r" where
  "CallCheckpointRound_end_block_self by_value super_end_block self =
     (case super_end_block self of
        (res, self') \<Rightarrow> (CallCheckpointRound_end_block by_value res, self'))"

definition PostTxSettlementRound_end_block_self ::
  "string \<Rightarrow> string \<Rightarrow> AbstractRound
     \<Rightarrow> (py_error + (AbciAppDB \<times> MultiplexerEvent) option) \<times> AbstractRound" where
  "PostTxSettlementRound_end_block_self decision_request_id bet_placement_id self =
     (PostTxSettlementRound_end_block decision_request_id bet_placement_id
        (synchronized_data self), self)"

text \<open>
  A table of member values for \<^verbatim>\<open>StakingState\<close>, for the examples: the members numbered
  from 0 in the order \<^verbatim>\<open>UNSTAKED\<close>, \<^verbatim>\<open>STAKED\<close>, \<^verbatim>\<open>EVICTED\<close>.
\<close>

definition StakingState_by_value :: "py_value \<Rightarrow> StakingState option" where
  "StakingState_by_value v =
     (if v = PyInt 0 then Some UNSTAKED
      else if v = PyInt 1 then Some STAKED
      else if v = PyInt 2 then Some EVICTED
      else None)"

subsection \<open>The generic quorum computation\<close>

text \<open>
  The selection key of \<^verbatim>\<open>CallCheckpointRound\<close>: the names of three properties of the
  synchronized data.
\<close>

definition CallCheckpointRound_selection_key :: "string list" where
  "CallCheckpointRound_selection_key =
     [''tx_submitter'', ''most_voted_tx_hash'', ''service_staking_state'']"

text \<open>
  A round that collects the same payload until a threshold: a round object with its
  threshold and the number of participants. \<open>merges\<close> is the log of the merges made into the
  synchronized data, each one the list of the keys written and their values.
\<close>

record CollectSameUntilThresholdRound = AbstractRound +
  threshold :: nat
  nb_participants :: nat
  merges :: "(string \<times> py_value) list list"

text \<open>Writing values under keys, one after the other.\<close>

definition merge_values :: "AbciAppDB \<Rightarrow> (string \<times> py_value) list \<Rightarrow> AbciAppDB" where
  "merge_values db kvs = foldl (\<lambda>d (k, v). d(k \<mapsto> v)) db kvs"

text \<open>
  Modelled from the spec: \<^verbatim>\<open>CollectSameUntilThresholdRound.end_block\<close>, the generic quorum
  computation that \<^verbatim>\<open>CallCheckpointRound\<close> inherits and calls as \<^verbatim>\<open>super().end_block()\<close>,
  is missing from the sources. The spec describes it: the payloads collected so far are
  grouped by equality; once the size of a group reaches the threshold, the value of that
  group is selected, merged into the synchronized data under the declared keys of the
  round, and the done event is returned; when no group has reached the threshold the
  result is \<^verbatim>\<open>None\<close>, unless no group can reach it any more with the participants that
  have not responded, and then the result is the data with the no-majority event. The
  synchronized data is shared and the merge writes into it.
\<close>

definition group_size :: "py_value list list \<Rightarrow> py_value list \<Rightarrow> nat" where
  "group_size payloads p = length (filter (\<lambda>q. q = p) payloads)"

definition most_voted_payload_values ::
  "CollectSameUntilThresholdRound \<Rightarrow> py_value list option" where
  "most_voted_payload_values self =
     (let payloads = map snd (collection self)
      in find (\<lambda>p. threshold self \<le> group_size payloads p) payloads)"

definition is_majority_possible :: "CollectSameUntilThresholdRound \<Rightarrow> bool" where
  "is_majority_possible self =
     (let payloads = map snd (collection self)
      in threshold self
           \<le> foldr max (map (group_size payloads) payloads) 0
               + (nb_participants self - length payloads))"

definition CollectSameUntilThresholdRound_end_block ::
  "string list \<Rightarrow> 'e \<Rightarrow> 'e \<Rightarrow> CollectSameUntilThresholdRound
     \<Rightarrow> (AbciAppDB \<times> 'e) option \<times> CollectSameUntilThresholdRound" where
  "CollectSameUntilThresholdRound_end_block selection_key done_event no_majority_event self =
     (case most_voted_payload_values self of
        Some payload_values \<Rightarrow>
          (let merged = zip selection_key payload_values;
               synced_data = merge_values (synchronized_data self) merged
           in (Some (synced_data, done_event),
               self\<lparr>synchronized_data := synced_data, merges := merges self @ [merged]\<rparr>))
      | None \<Rightarrow>
          if \<not> is_majority_possible self
          then (Some (synchronized_data self, no_majority_event), self)
          else (None, self))"

text \<open>\<^verbatim>\<open>super().end_block()\<close> in \<^verbatim>\<open>CallCheckpointRound\<close>.\<close>

definition CallCheckpointRound_super_end_block ::
  "CollectSameUntilThresholdRound
     \<Rightarrow> (AbciAppDB \<times> Event) option \<times> CollectSameUntilThresholdRound" where
  "CallCheckpointRound_super_end_block =
     CollectSameUntilThresholdRound_end_block CallCheckpointRound_selection_key
       CallCheckpointRound_done_event CallCheckpointRound_no_majority_event"

text \<open>
  A round of four participants with a threshold of three, for the examples: the payloads
  given, nothing in the synchronized data and no merge made.
\<close>

definition example_round ::
  "(string \<times> py_value list) list \<Rightarrow> CollectSameUntilThresholdRound" where
  "example_round payloads =
     \<lparr>synchronized_data = Map.empty, collection = payloads, threshold = 3,
      nb_participants = 4, merges = []\<rparr>"
section \<open>The stop-trading check: \<^verbatim>\<open>check_stop_trading_abci/behaviours.py\<close>\<close>

subsection \<open>True division of integers\<close>

text \<open>
  \<^verbatim>\<open>a / b\<close> on two Python integers is a float: the IEEE 754 binary64 number nearest to the
  exact quotient, ties going to the even significand; \<^verbatim>\<open>ZeroDivisionError\<close> for a zero
  divisor and \<^verbatim>\<open>OverflowError\<close> when the rounded quotient is beyond the largest float.
  A finite float is a rational number, and that is how its value is kept here.

  A binary64 number has a significand of 53 bits: a quotient \<open>x\<close> with
  \<open>2^e \<le> x < 2^(e+1)\<close> is rounded to a multiple of \<open>2^(e-52)\<close>, and below the normal
  range (\<open>e < -1022\<close>) to a multiple of \<open>2^(-1074)\<close>.
\<close>

definition round_half_even :: "rat \<Rightarrow> int" where
  "round_half_even x =
     (let n = \<lfloor>x\<rfloor>; r = x - of_int n
      in if r < 1 / 2 then n
         else if 1 / 2 < r then n + 1
         else if even n then n else n + 1)"

function bit_length :: "int \<Rightarrow> nat" where
  "bit_length n = (if n \<le> 0 then 0 else Suc (bit_length (n div 2)))"
  by pat_completeness auto
termination
  by (relation "measure nat") auto

declare bit_length.simps [simp del]

definition pow2 :: "int \<Rightarrow> rat" where
  "pow2 k = (if 0 \<le> k then 2 ^ nat k else 1 / 2 ^ nat (- k))"

text \<open>For positive \<open>a\<close> and \<open>b\<close>, the \<open>e\<close> with \<open>2^e \<le> a / b < 2^(e+1)\<close>.\<close>

definition quotient_exponent :: "int \<Rightarrow> int \<Rightarrow> int" where
  "quotient_exponent a b =
     (let d = int (bit_length a) - int (bit_length b)
      in if pow2 d \<le> of_int a / of_int b then d else d - 1)"

definition py_truediv :: "int \<Rightarrow> int \<Rightarrow> py_error + rat" where
  "py_truediv a b =
     (if b = 0 then Inl ZeroDivisionError
      else if a = 0 then Inr 0
      else
        let x = \<bar>of_int a / of_int b\<bar>;
            e = quotient_exponent \<bar>a\<bar> \<bar>b\<bar>;
            q = max (e - 52) (- 1074);
            y = of_int (round_half_even (x / pow2 q)) * pow2 q
        in if 2 ^ 1024 \<le> y then Inl OverflowError
           else Inr (if (a < 0) = (b < 0) then y else - y))"

text \<open>\<^verbatim>\<open>math.ceil\<close> of a float is the exact integer ceiling of its value.\<close>

definition math_ceil :: "rat \<Rightarrow> int" where
  "math_ceil x = \<lceil>x\<rceil>"

subsection \<open>The behaviour\<close>

definition LIVENESS_RATIO_SCALE_FACTOR :: int where
  "LIVENESS_RATIO_SCALE_FACTOR = 10 ^ 18"

definition REQUIRED_MECH_REQUESTS_SAFETY_MARGIN :: int where
  "REQUIRED_MECH_REQUESTS_SAFETY_MARGIN = 1"

text \<open>
  What the behaviour reads from outside: the period count of the synchronized data, the
  two parameters, the synchronized timestamp, and the values the contract reads of
  \<^verbatim>\<open>is_staking_kpi_met\<close> leave on the behaviour once they have succeeded
  (\<^verbatim>\<open>wait_for_condition_with_sleep\<close> repeats a read until it does). \<open>service_info_2\<close> is
  \<^verbatim>\<open>service_info[2]\<close>, the sequence of nonces of the service.
\<close>

record CheckStopTradingParams =
  disable_trading :: bool
  stop_trading_if_staking_kpi_met :: bool

record staking_reads =
  read_service_staking_state :: StakingState
  read_mech_request_count :: int
  service_info_2 :: "int list"
  ts_checkpoint :: int
  liveness_period :: int
  liveness_ratio :: int
  synced_timestamp :: int

text \<open>What the behaviour does, in order: parameter reads and contract reads.\<close>

datatype action =
    get_disable_trading
  | get_stop_trading_if_staking_kpi_met
  | check_service_staked
  | get_mech_request_count
  | get_service_info
  | get_ts_checkpoint
  | get_liveness_period
  | get_liveness_ratio

text \<open>Indexing a Python list with a non-negative literal.\<close>

definition py_index :: "'a list \<Rightarrow> nat \<Rightarrow> py_error + 'a" where
  "py_index xs i = (if i < length xs then Inr (xs ! i) else Inl IndexError)"

text \<open>
  The required number of requests: the two quotients are evaluated left to right, then
  \<^verbatim>\<open>max\<close>, \<^verbatim>\<open>math.ceil\<close> and the safety margin.
\<close>

definition required_mech_requests :: "int \<Rightarrow> int \<Rightarrow> int \<Rightarrow> int \<Rightarrow> py_error + int" where
  "required_mech_requests current_timestamp last_ts_checkpoint period ratio =
     (case py_truediv ((current_timestamp - last_ts_checkpoint) * ratio)
             LIVENESS_RATIO_SCALE_FACTOR of
        Inl e \<Rightarrow> Inl e
      | Inr x \<Rightarrow>
          (case py_truediv (period * ratio) LIVENESS_RATIO_SCALE_FACTOR of
             Inl e \<Rightarrow> Inl e
           | Inr y \<Rightarrow> Inr (math_ceil (max x y) + REQUIRED_MECH_REQUESTS_SAFETY_MARGIN)))"

text \<open>
  \<^verbatim>\<open>is_staking_kpi_met\<close>: its result, or the exception it raises, and the contract reads
  it has made.
\<close>

definition is_staking_kpi_met :: "staking_reads \<Rightarrow> (py_error + bool) \<times> action list" where
  "is_staking_kpi_met env =
     (if read_service_staking_state env \<noteq> STAKED then (Inr False, [check_service_staked])
      else
        (case py_index (service_info_2 env) 1 of
           Inl e \<Rightarrow> (Inl e, [check_service_staked, get_mech_request_count, get_service_info])
         | Inr mech_request_count_on_last_checkpoint \<Rightarrow>
             (let mech_requests_since_last_cp =
                    read_mech_request_count env - mech_request_count_on_last_checkpoint
              in (case required_mech_requests (synced_timestamp env) (ts_checkpoint env)
                          (liveness_period env) (liveness_ratio env) of
                    Inl e \<Rightarrow> Inl e
                  | Inr required \<Rightarrow>
                      if mech_requests_since_last_cp \<ge> required then Inr True else Inr False),
              [check_service_staked, get_mech_request_count, get_service_info,
               get_ts_checkpoint, get_liveness_period, get_liveness_ratio])))"

record CheckStopTradingPayload =
  sender :: string
  stop_trading :: bool

definition is_first_period :: "int \<Rightarrow> bool" where
  "is_first_period period_count = (period_count = 0)"

text \<open>
  \<^verbatim>\<open>async_act\<close>, up to the payload it submits: the payload, or the exception raised
  before there is one, and the reads made on the way.
\<close>

definition async_act ::
  "string \<Rightarrow> int \<Rightarrow> CheckStopTradingParams \<Rightarrow> staking_reads
     \<Rightarrow> (py_error + CheckStopTradingPayload) \<times> action list" where
  "async_act agent_address period_count params env =
     (if is_first_period period_count
      then (Inr \<lparr>sender = agent_address, stop_trading = False\<rparr>, [])
      else
        (let stop_trading_conditions = [disable_trading params]
         in if stop_trading_if_staking_kpi_met params
            then
              (case is_staking_kpi_met env of
                 (Inl e, reads) \<Rightarrow>
                   (Inl e, [get_disable_trading, get_stop_trading_if_staking_kpi_met] @ reads)
               | (Inr staking_kpi_met, reads) \<Rightarrow>
                   (Inr \<lparr>sender = agent_address,
                         stop_trading =
                           list_ex (\<lambda>c. c) (stop_trading_conditions @ [staking_kpi_met])\<rparr>,
                    [get_disable_trading, get_stop_trading_if_staking_kpi_met] @ reads))
            else
              (Inr \<lparr>sender = agent_address,
                    stop_trading = list_ex (\<lambda>c. c) stop_trading_conditions\<rparr>,
               [get_disable_trading, get_stop_trading_if_staking_kpi_met])))"


section \<open>The subscription purchase: \<^verbatim>\<open>decision_maker_abci/behaviours/order_subscription.py\<close>\<close>

text \<open>
  A batch of the multisend transaction. \<^verbatim>\<open>HexBytes\<close> wraps the hexadecimal data a contract
  call has answered.
\<close>

datatype HexBytes = HexBytes string

record MultisendBatch =
  to :: string
  data :: HexBytes

text \<open>The keyword arguments \<^verbatim>\<open>_get_purchase_params\<close> builds for \<^verbatim>\<open>_prepare_order_tx\<close>.\<close>

record purchase_params =
  agreement_id :: string
  did :: string
  condition_ids :: "string list"
  consumer :: string
  index :: int
  time_outs :: "int list"
  time_locks :: "int list"
  reward_address :: string
  receivers :: "string list"
  amounts :: "int list"
  contract_address :: string
  token_address :: string

definition LOCK_CONDITION_INDEX :: int where
  "LOCK_CONDITION_INDEX = 0"

text \<open>The contract calls and the other steps that can fail, in a log of what has been run.\<close>

datatype purchase_step =
    Balance_of
  | Build_approval_tx
  | Resolve_did
  | Build_order_tx
  | Build_multisend

text \<open>
  The attributes of the behaviour that the purchase writes; \<open>steps\<close> is the log of the
  steps run so far.
\<close>

record OrderSubscriptionBehaviour =
  order_tx :: string
  approval_tx :: string
  balance :: int
  agreement_id :: string
  multisend_batches :: "MultisendBatch list"
  steps :: "purchase_step list"

text \<open>
  What the behaviour takes from outside this file. The two sentinels are constants of
  \<^verbatim>\<open>SubscriptionRound\<close>. The properties of the base behaviour and the functions of
  \<^verbatim>\<open>utils/nevermined\<close> keep their names; \<open>'d\<close> is the resolved DID document and a price
  is the association of receivers to amounts, in the order of the document.
  \<^verbatim>\<open>contract_interact\<close> answers \<^verbatim>\<open>False\<close>, here \<open>None\<close>, or stores the data of the
  response under the placeholder and answers \<^verbatim>\<open>True\<close>, here \<open>Some\<close> of the data; so do
  the three callables \<open>balance_of\<close>, \<open>build_approval_tx\<close> and \<open>build_order_tx\<close>.
  \<open>resolve_did\<close> is \<open>None\<close> when \<^verbatim>\<open>_resolve_did\<close> returns \<^verbatim>\<open>None\<close>. \<open>multisend_tx_hex\<close> is
  what the two build steps, each repeated by \<^verbatim>\<open>wait_for_condition_with_sleep\<close> until it
  succeeds, leave in \<^verbatim>\<open>tx_hex\<close> for the batches collected; it is \<open>None\<close> when one of
  them never succeeds.
\<close>

record 'd subscription_env =
  NO_TX_PAYLOAD :: string
  ERROR_PAYLOAD :: string
  use_nevermined :: bool
  safe_contract_address :: string
  did :: string
  token_address :: string
  payment_token :: string
  purchase_amount :: int
  price :: int
  order_address :: string
  lock_payment_condition_address :: string
  escrow_payment_condition_address :: string
  transfer_nft_condition_address :: string
  generate_id :: string
  zero_x_transformer :: "string \<Rightarrow> string"
  no_did_prefixed :: "string \<Rightarrow> string"
  get_agreement_id :: "string \<Rightarrow> string \<Rightarrow> string"
  get_price :: "'d \<Rightarrow> (string \<times> int) list"
  get_lock_payment_seed ::
    "string \<Rightarrow> 'd \<Rightarrow> string \<Rightarrow> string \<Rightarrow> string \<Rightarrow> int list \<Rightarrow> string list
       \<Rightarrow> string \<times> string"
  get_transfer_nft_condition_seed ::
    "string \<Rightarrow> 'd \<Rightarrow> string \<Rightarrow> int \<Rightarrow> string \<Rightarrow> string \<Rightarrow> string \<Rightarrow> string \<times> string"
  get_escrow_payment_seed ::
    "string \<Rightarrow> 'd \<Rightarrow> int list \<Rightarrow> string list \<Rightarrow> string \<Rightarrow> string \<Rightarrow> string \<Rightarrow> string
       \<Rightarrow> string \<Rightarrow> string \<times> string"
  get_timeouts_and_timelocks :: "'d \<Rightarrow> int list \<times> int list"
  balance_of :: "string \<Rightarrow> string \<Rightarrow> string \<Rightarrow> int option"
  build_approval_tx :: "string \<Rightarrow> string \<Rightarrow> int \<Rightarrow> string option"
  build_order_tx :: "purchase_params \<Rightarrow> string option"
  resolve_did :: "'d option"
  multisend_tx_hex :: "MultisendBatch list \<Rightarrow> string option"

text \<open>\<^verbatim>\<open>__init__\<close>: the attributes before the purchase.\<close>

definition OrderSubscriptionBehaviour_init :: OrderSubscriptionBehaviour where
  "OrderSubscriptionBehaviour_init =
     \<lparr>order_tx = [], approval_tx = [], balance = 0, agreement_id = [],
      multisend_batches = [], steps = []\<rparr>"

text \<open>
  \<^verbatim>\<open>_get_condition_ids\<close>: the three seeds, the lock id feeding the transfer condition and
  both ids feeding the escrow condition; the agreement id is stored on the behaviour.
\<close>

definition get_condition_ids ::
  "'d subscription_env \<Rightarrow> string \<Rightarrow> 'd \<Rightarrow> OrderSubscriptionBehaviour
     \<Rightarrow> string list \<times> OrderSubscriptionBehaviour" where
  "get_condition_ids env agreement_id_seed did_doc self =
     (let self1 = self\<lparr>agreement_id :=
                    get_agreement_id env agreement_id_seed (safe_contract_address env)\<rparr>;
          price_dict = get_price env did_doc;
          receivers_list = map fst price_dict;
          amounts_list = map snd price_dict;
          (lock_payment_seed, lock_payment_id) =
             get_lock_payment_seed env (agreement_id self1) did_doc
               (lock_payment_condition_address env) (escrow_payment_condition_address env)
               (payment_token env) amounts_list receivers_list;
          (transfer_nft_condition_seed, transfer_nft_condition_id) =
             get_transfer_nft_condition_seed env (agreement_id self1) did_doc
               (safe_contract_address env) (purchase_amount env)
               (transfer_nft_condition_address env) lock_payment_id (token_address env);
          (escrow_payment_seed, escrow_payment_id) =
             get_escrow_payment_seed env (agreement_id self1) did_doc amounts_list
               receivers_list (safe_contract_address env)
               (escrow_payment_condition_address env) (payment_token env) lock_payment_id
               transfer_nft_condition_id
      in ([lock_payment_seed, transfer_nft_condition_seed, escrow_payment_seed], self1))"

text \<open>\<^verbatim>\<open>_get_purchase_params\<close>: \<open>None\<close> when the DID document could not be resolved.\<close>

definition get_purchase_params ::
  "'d subscription_env \<Rightarrow> OrderSubscriptionBehaviour
     \<Rightarrow> purchase_params option \<times> OrderSubscriptionBehaviour" where
  "get_purchase_params env self =
     (let new_agreement_id = zero_x_transformer env (generate_id env);
          did_hex = zero_x_transformer env (no_did_prefixed env (did env));
          self1 = self\<lparr>steps := steps self @ [Resolve_did]\<rparr>
      in (case resolve_did env of
            None \<Rightarrow> (None, self1)
          | Some did_doc \<Rightarrow>
              (let (ids, self2) = get_condition_ids env new_agreement_id did_doc self1;
                   (timeouts, timelocks) = get_timeouts_and_timelocks env did_doc;
                   price_dict = get_price env did_doc
               in (Some \<lparr>purchase_params.agreement_id = new_agreement_id,
                         purchase_params.did = did_hex,
                         condition_ids = ids,
                         consumer = safe_contract_address env,
                         index = LOCK_CONDITION_INDEX,
                         time_outs = timeouts,
                         time_locks = timelocks,
                         reward_address = escrow_payment_condition_address env,
                         receivers = map fst price_dict,
                         amounts = map snd price_dict,
                         contract_address = order_address env,
                         purchase_params.token_address = payment_token env\<rparr>,
                   self2))))"

text \<open>\<^verbatim>\<open>_get_approval_params\<close>: token, spender and amount.\<close>

definition get_approval_params :: "'d subscription_env \<Rightarrow> string \<times> string \<times> int" where
  "get_approval_params env =
     (payment_token env, lock_payment_condition_address env, price env)"

text \<open>\<^verbatim>\<open>_prepare_order_tx\<close>: on success the order is appended to the batches.\<close>

definition prepare_order_tx ::
  "'d subscription_env \<Rightarrow> purchase_params \<Rightarrow> OrderSubscriptionBehaviour
     \<Rightarrow> bool \<times> OrderSubscriptionBehaviour" where
  "prepare_order_tx env params self =
     (let self1 = self\<lparr>steps := steps self @ [Build_order_tx]\<rparr>
      in (case build_order_tx env params of
            None \<Rightarrow> (False, self1)
          | Some tx \<Rightarrow>
              (let self2 = self1\<lparr>order_tx := tx\<rparr>
               in (True,
                   self2\<lparr>multisend_batches := multisend_batches self2 @
                            [\<lparr>to = contract_address params,
                              data = HexBytes (order_tx self2)\<rparr>]\<rparr>))))"

text \<open>\<^verbatim>\<open>_prepare_approval_tx\<close>: on success the approval is appended to the batches.\<close>

definition prepare_approval_tx ::
  "'d subscription_env \<Rightarrow> string \<Rightarrow> string \<Rightarrow> int \<Rightarrow> OrderSubscriptionBehaviour
     \<Rightarrow> bool \<times> OrderSubscriptionBehaviour" where
  "prepare_approval_tx env token spender amount self =
     (let self1 = self\<lparr>steps := steps self @ [Build_approval_tx]\<rparr>
      in (case build_approval_tx env token spender amount of
            None \<Rightarrow> (False, self1)
          | Some tx \<Rightarrow>
              (let self2 = self1\<lparr>approval_tx := tx\<rparr>
               in (True,
                   self2\<lparr>multisend_batches := multisend_batches self2 @
                            [\<lparr>to = token, data = HexBytes (approval_tx self2)\<rparr>]\<rparr>))))"

text \<open>\<^verbatim>\<open>_get_balance\<close>: on success the balance is stored on the behaviour.\<close>

definition get_balance ::
  "'d subscription_env \<Rightarrow> string \<Rightarrow> string \<Rightarrow> string \<Rightarrow> OrderSubscriptionBehaviour
     \<Rightarrow> bool \<times> OrderSubscriptionBehaviour" where
  "get_balance env token address did_hex self =
     (let self1 = self\<lparr>steps := steps self @ [Balance_of]\<rparr>
      in (case balance_of env token address did_hex of
            None \<Rightarrow> (False, self1)
          | Some b \<Rightarrow> (True, self1\<lparr>balance := b\<rparr>)))"

text \<open>\<^verbatim>\<open>_should_purchase\<close>.\<close>

definition should_purchase ::
  "'d subscription_env \<Rightarrow> OrderSubscriptionBehaviour \<Rightarrow> bool \<times> OrderSubscriptionBehaviour" where
  "should_purchase env self =
     (if \<not> use_nevermined env then (False, self)
      else
        (let (result, self1) =
               get_balance env (token_address env) (safe_contract_address env)
                 (zero_x_transformer env (no_did_prefixed env (did env))) self
         in if \<not> result then (False, self1)
            else (balance self1 \<le> 0, self1)))"

text \<open>
  \<^verbatim>\<open>get_payload_content\<close>: the payload, \<open>None\<close> when the call does not return, and the
  behaviour as the call leaves it.
\<close>

definition get_payload_content ::
  "'d subscription_env \<Rightarrow> OrderSubscriptionBehaviour
     \<Rightarrow> string option \<times> OrderSubscriptionBehaviour" where
  "get_payload_content env self =
     (let (purchase, self1) = should_purchase env self
      in if \<not> purchase then (Some (NO_TX_PAYLOAD env), self1)
         else
           (let (token, spender, amount) = get_approval_params env;
                (result, self2) = prepare_approval_tx env token spender amount self1
            in if \<not> result then (Some (ERROR_PAYLOAD env), self2)
               else
                 (case get_purchase_params env self2 of
                    (None, self3) \<Rightarrow> (Some (ERROR_PAYLOAD env), self3)
                  | (Some params, self3) \<Rightarrow>
                      (let (result, self4) = prepare_order_tx env params self3
                       in if \<not> result then (Some (ERROR_PAYLOAD env), self4)
                          else
                            (multisend_tx_hex env (multisend_batches self4),
                             self4\<lparr>steps := steps self4 @ [Build_multisend]\<rparr>)))))"

text \<open>
  An environment for the examples: every address and helper is a fixed value, the DID
  document is a number, and the answers of the five steps are given.
\<close>

definition example_subscription_env ::
  "bool \<Rightarrow> int option \<Rightarrow> string option \<Rightarrow> nat option \<Rightarrow> string option \<Rightarrow> string option
     \<Rightarrow> nat subscription_env" where
  "example_subscription_env nevermined bal approval doc ordered hex =
     \<lparr>NO_TX_PAYLOAD = ''no_tx'',
      ERROR_PAYLOAD = ''error'',
      use_nevermined = nevermined,
      safe_contract_address = ''safe'',
      did = ''did:nv:01'',
      token_address = ''nft'',
      payment_token = ''usdc'',
      purchase_amount = 1,
      price = 1000000,
      order_address = ''order'',
      lock_payment_condition_address = ''lock'',
      escrow_payment_condition_address = ''escrow'',
      transfer_nft_condition_address = ''transfer'',
      generate_id = ''id'',
      zero_x_transformer = (\<lambda>s. ''0x'' @ s),
      no_did_prefixed = drop 7,
      get_agreement_id = (\<lambda>seed address. seed @ address),
      get_price = (\<lambda>d. [(''receiver'', 1000000)]),
      get_lock_payment_seed = (\<lambda>a d l e t xs rs. (''lock_seed'', ''lock_id'')),
      get_transfer_nft_condition_seed = (\<lambda>a d s n t l k. (''transfer_seed'', ''transfer_id'')),
      get_escrow_payment_seed = (\<lambda>a d xs rs s e t l k. (''escrow_seed'', ''escrow_id'')),
      get_timeouts_and_timelocks = (\<lambda>d. ([0, 0, 0], [0, 0, 0])),
      balance_of = (\<lambda>token address d. bal),
      build_approval_tx = (\<lambda>token spender amount. approval),
      build_order_tx = (\<lambda>params. ordered),
      resolve_did = doc,
      multisend_tx_hex = (\<lambda>batches. hex)\<rparr>"
section \<open>Properties of the rounds and of the transition tables\<close>

lemma CallCheckpointRound_row:
  "events_of StakingAbciApp_transition_function CallCheckpointRound =
     {DONE, SERVICE_NOT_STAKED, SERVICE_EVICTED, NEXT_CHECKPOINT_NOT_REACHED_YET,
      ROUND_TIMEOUT, NO_MAJORITY}"
  by (simp add: events_of_def StakingAbciApp_transition_function_def)

lemma PostTxSettlementRound_row:
  "events_of TxSettlementMultiplexerAbciApp_transition_function PostTxSettlementRound =
     {DECISION_REQUESTING_DONE, BET_PLACEMENT_DONE, ROUND_TIMEOUT_mux, UNRECOGNIZED}"
  by (simp add: events_of_def TxSettlementMultiplexerAbciApp_transition_function_def)

lemma CallCheckpointRound_next:
  "\<exists>n. transition StakingAbciApp_transition_function CallCheckpointRound ev = Some n"
  by (cases ev) (simp_all add: transition_def StakingAbciApp_transition_function_def)

lemma PostTxSettlementRound_next:
  "\<exists>n. transition TxSettlementMultiplexerAbciApp_transition_function PostTxSettlementRound ev
         = Some n"
  by (cases ev)
    (simp_all add: transition_def TxSettlementMultiplexerAbciApp_transition_function_def)

lemma staking_not_final:
  "r \<notin> StakingAbciApp_final_states \<longleftrightarrow> r = CallCheckpointRound"
  by (cases r) (simp_all add: StakingAbciApp_final_states_def)

lemma multiplexer_not_final:
  "r \<notin> TxSettlementMultiplexerAbciApp_final_states \<longleftrightarrow> r = PostTxSettlementRound"
  by (cases r) (simp_all add: TxSettlementMultiplexerAbciApp_final_states_def)

lemma staking_final_row:
  "r \<in> StakingAbciApp_final_states \<Longrightarrow>
     events_of StakingAbciApp_transition_function r = {}"
  by (cases r)
    (simp_all add: StakingAbciApp_final_states_def events_of_def
      StakingAbciApp_transition_function_def)

lemma multiplexer_final_row:
  "r \<in> TxSettlementMultiplexerAbciApp_final_states \<Longrightarrow>
     events_of TxSettlementMultiplexerAbciApp_transition_function r = {}"
  by (cases r)
    (simp_all add: TxSettlementMultiplexerAbciApp_final_states_def events_of_def
      TxSettlementMultiplexerAbciApp_transition_function_def)

lemma end_block_not_done:
  "event \<noteq> DONE \<Longrightarrow>
     CallCheckpointRound_end_block by_value (Some (d, event)) = Inr (Some (d, event))"
  by (simp add: CallCheckpointRound_end_block_def)

lemma end_block_unstaked:
  "service_staking_state by_value d = Inr UNSTAKED \<Longrightarrow>
     CallCheckpointRound_end_block by_value (Some (d, DONE)) = Inr (Some (d, SERVICE_NOT_STAKED))"
  by (simp add: CallCheckpointRound_end_block_def)

lemma end_block_evicted:
  "service_staking_state by_value d = Inr EVICTED \<Longrightarrow>
     CallCheckpointRound_end_block by_value (Some (d, DONE)) = Inr (Some (d, SERVICE_EVICTED))"
  by (simp add: CallCheckpointRound_end_block_def)

lemma end_block_no_hash:
  "service_staking_state by_value d = Inr st \<Longrightarrow> st \<noteq> UNSTAKED \<Longrightarrow> st \<noteq> EVICTED \<Longrightarrow>
   most_voted_tx_hash d = Inr PyNone \<Longrightarrow>
     CallCheckpointRound_end_block by_value (Some (d, DONE))
       = Inr (Some (d, NEXT_CHECKPOINT_NOT_REACHED_YET))"
  by (simp add: CallCheckpointRound_end_block_def)

lemma end_block_hash:
  "service_staking_state by_value d = Inr st \<Longrightarrow> st \<noteq> UNSTAKED \<Longrightarrow> st \<noteq> EVICTED \<Longrightarrow>
   most_voted_tx_hash d = Inr h \<Longrightarrow> h \<noteq> PyNone \<Longrightarrow>
     CallCheckpointRound_end_block by_value (Some (d, DONE)) = Inr (Some (d, DONE))"
  by (simp add: CallCheckpointRound_end_block_def)

lemma end_block_keeps_data:
  "CallCheckpointRound_end_block by_value (Some (d, event)) = Inr r \<Longrightarrow>
     \<exists>event'. r = Some (d, event')"
  by (auto simp: CallCheckpointRound_end_block_def split: if_splits sum.splits)

lemma end_block_same_data:
  "CallCheckpointRound_end_block by_value res = Inr res' \<Longrightarrow>
     map_option fst res' = map_option fst res"
  by (auto simp: CallCheckpointRound_end_block_def split: option.splits if_splits sum.splits)


lemma example_db_reads:
  "service_staking_state StakingState_by_value [''service_staking_state'' \<mapsto> PyInt 0]
     = Inr UNSTAKED"
  "service_staking_state StakingState_by_value [''service_staking_state'' \<mapsto> PyInt 2]
     = Inr EVICTED"
  "service_staking_state StakingState_by_value Map.empty = Inr UNSTAKED"
  "service_staking_state StakingState_by_value
     [''service_staking_state'' \<mapsto> PyInt 1, ''most_voted_tx_hash'' \<mapsto> h] = Inr STAKED"
  "most_voted_tx_hash [''service_staking_state'' \<mapsto> PyInt 1, ''most_voted_tx_hash'' \<mapsto> h]
     = Inr h"
  by (simp_all add: service_staking_state_def StakingState_call_def StakingState_by_value_def
      db_get_def most_voted_tx_hash_def get_strict_def)








text \<open>
  C2. \<^verbatim>\<open>CallCheckpointRound.end_block\<close> post-processes the result of the generic quorum
  computation. A result whose event is not \<^verbatim>\<open>DONE\<close> is returned unchanged. A \<^verbatim>\<open>DONE\<close>
  result keeps its data and gets the event \<^verbatim>\<open>SERVICE_NOT_STAKED\<close> when the staking state
  of the merged data is \<^verbatim>\<open>UNSTAKED\<close>, else \<^verbatim>\<open>SERVICE_EVICTED\<close> when it is \<^verbatim>\<open>EVICTED\<close>,
  else \<^verbatim>\<open>NEXT_CHECKPOINT_NOT_REACHED_YET\<close> when the most voted transaction hash is
  \<^verbatim>\<open>None\<close>, else it stays \<^verbatim>\<open>DONE\<close>. The event depends on the merged data through these
  two reads only, and on a round object the method is the post-processing of one run of
  the generic computation: the object is left as that one run leaves it.
\<close>

theorem C2_end_block_remaps_done:
  "(event \<noteq> DONE \<longrightarrow>
      CallCheckpointRound_end_block by_value (Some (d, event)) = Inr (Some (d, event)))
   \<and> (service_staking_state by_value d = Inr UNSTAKED \<longrightarrow>
      CallCheckpointRound_end_block by_value (Some (d, DONE))
        = Inr (Some (d, SERVICE_NOT_STAKED)))
   \<and> (service_staking_state by_value d = Inr EVICTED \<longrightarrow>
      CallCheckpointRound_end_block by_value (Some (d, DONE))
        = Inr (Some (d, SERVICE_EVICTED)))
   \<and> (service_staking_state by_value d = Inr st \<and> st \<noteq> UNSTAKED \<and> st \<noteq> EVICTED
        \<and> most_voted_tx_hash d = Inr PyNone \<longrightarrow>
      CallCheckpointRound_end_block by_value (Some (d, DONE))
        = Inr (Some (d, NEXT_CHECKPOINT_NOT_REACHED_YET)))
   \<and> (service_staking_state by_value d = Inr st \<and> st \<noteq> UNSTAKED \<and> st \<noteq> EVICTED
        \<and> most_voted_tx_hash d = Inr h \<and> h \<noteq> PyNone \<longrightarrow>
      CallCheckpointRound_end_block by_value (Some (d, DONE)) = Inr (Some (d, DONE)))
   \<and> (service_staking_state by_value d = service_staking_state by_value d'
        \<and> most_voted_tx_hash d = most_voted_tx_hash d' \<longrightarrow>
      map_sum id (map_option snd) (CallCheckpointRound_end_block by_value (Some (d, event)))
        = map_sum id (map_option snd)
            (CallCheckpointRound_end_block by_value (Some (d', event))))
   \<and> CallCheckpointRound_end_block_self by_value super_end_block self
        = (CallCheckpointRound_end_block by_value (fst (super_end_block self)),
           snd (super_end_block self))"
proof -
  have pure:
    "map_sum id (map_option snd) (CallCheckpointRound_end_block by_value (Some (d, event)))
       = map_sum id (map_option snd)
           (CallCheckpointRound_end_block by_value (Some (d', event)))"
    if "service_staking_state by_value d = service_staking_state by_value d'"
      and "most_voted_tx_hash d = most_voted_tx_hash d'"
    using that by (simp add: CallCheckpointRound_end_block_def split: sum.splits)
  have self:
    "CallCheckpointRound_end_block_self by_value super_end_block self
       = (CallCheckpointRound_end_block by_value (fst (super_end_block self)),
          snd (super_end_block self))"
    by (simp add: CallCheckpointRound_end_block_self_def split: prod.splits)
  show ?thesis
    using end_block_not_done [of event by_value d] end_block_unstaked [of by_value d]
      end_block_evicted [of by_value d] end_block_no_hash [of by_value d st]
      end_block_hash [of by_value d st h] pure self
    by blast
qed

theorem C2_end_block_remaps_done_witness:
  "CallCheckpointRound_end_block StakingState_by_value (Some (Map.empty, NO_MAJORITY))
     = Inr (Some (Map.empty, NO_MAJORITY))
   \<and> CallCheckpointRound_end_block StakingState_by_value
       (Some ([''service_staking_state'' \<mapsto> PyInt 0], DONE))
     = Inr (Some ([''service_staking_state'' \<mapsto> PyInt 0], SERVICE_NOT_STAKED))
   \<and> CallCheckpointRound_end_block StakingState_by_value
       (Some ([''service_staking_state'' \<mapsto> PyInt 2], DONE))
     = Inr (Some ([''service_staking_state'' \<mapsto> PyInt 2], SERVICE_EVICTED))
   \<and> CallCheckpointRound_end_block StakingState_by_value
       (Some ([''service_staking_state'' \<mapsto> PyInt 1, ''most_voted_tx_hash'' \<mapsto> PyNone], DONE))
     = Inr (Some ([''service_staking_state'' \<mapsto> PyInt 1, ''most_voted_tx_hash'' \<mapsto> PyNone],
              NEXT_CHECKPOINT_NOT_REACHED_YET))
   \<and> CallCheckpointRound_end_block StakingState_by_value
       (Some ([''service_staking_state'' \<mapsto> PyInt 1, ''most_voted_tx_hash'' \<mapsto> PyStr ''0xabc''],
              DONE))
     = Inr (Some ([''service_staking_state'' \<mapsto> PyInt 1,
                   ''most_voted_tx_hash'' \<mapsto> PyStr ''0xabc''], DONE))
   \<and> map_sum id (map_option snd)
         (CallCheckpointRound_end_block StakingState_by_value (Some (Map.empty, DONE)))
       = map_sum id (map_option snd)
           (CallCheckpointRound_end_block StakingState_by_value
              (Some ([''service_staking_state'' \<mapsto> PyInt 0], DONE)))"
  using
    C2_end_block_remaps_done [where super_end_block = CallCheckpointRound_super_end_block
      and self = "example_round []" and event = NO_MAJORITY and by_value = StakingState_by_value
      and d = Map.empty and d' = Map.empty]
    C2_end_block_remaps_done [where super_end_block = CallCheckpointRound_super_end_block
      and self = "example_round []" and event = DONE and by_value = StakingState_by_value
      and d = "[''service_staking_state'' \<mapsto> PyInt 0]" and d' = Map.empty]
    C2_end_block_remaps_done [where super_end_block = CallCheckpointRound_super_end_block
      and self = "example_round []" and event = DONE and by_value = StakingState_by_value
      and d = "[''service_staking_state'' \<mapsto> PyInt 2]"]
    C2_end_block_remaps_done [where super_end_block = CallCheckpointRound_super_end_block
      and self = "example_round []" and event = DONE and by_value = StakingState_by_value
      and d = "[''service_staking_state'' \<mapsto> PyInt 1, ''most_voted_tx_hash'' \<mapsto> PyNone]"
      and st = STAKED]
    C2_end_block_remaps_done [where super_end_block = CallCheckpointRound_super_end_block
      and self = "example_round []" and event = DONE and by_value = StakingState_by_value
      and d = "[''service_staking_state'' \<mapsto> PyInt 1,
                ''most_voted_tx_hash'' \<mapsto> PyStr ''0xabc'']"
      and st = STAKED and h = "PyStr ''0xabc''"]
    C2_end_block_remaps_done [where super_end_block = CallCheckpointRound_super_end_block
      and self = "example_round []" and event = DONE and by_value = StakingState_by_value
      and d = Map.empty and d' = "[''service_staking_state'' \<mapsto> PyInt 0]"]
  by (simp add: service_staking_state_def StakingState_call_def StakingState_by_value_def
      db_get_def most_voted_tx_hash_def get_strict_def)

text \<open>
  C3, as stated, fails on a database in which \<^verbatim>\<open>tx_submitter\<close> is not set: the strict
  getter raises.
\<close>

theorem C3_end_block_raises_without_submitter:
  "PostTxSettlementRound_end_block ''decision_request_round'' ''bet_placement_round'' Map.empty
     = Inl ValueError"
  by (simp add: PostTxSettlementRound_end_block_def tx_submitter_def get_strict_def)

text \<open>
  C3, amended. On every database in which \<^verbatim>\<open>tx_submitter\<close> is set (the declared
  pre-condition of the round), \<^verbatim>\<open>PostTxSettlementRound.end_block\<close> returns a pair of the
  same data and an event, neither raising nor returning \<^verbatim>\<open>None\<close>: with the two round ids
  distinct, the event is \<^verbatim>\<open>DECISION_REQUESTING_DONE\<close> when the submitter is the id of
  \<^verbatim>\<open>DecisionRequestRound\<close>, \<^verbatim>\<open>BET_PLACEMENT_DONE\<close> when it is the id of
  \<^verbatim>\<open>BetPlacementRound\<close>, and \<^verbatim>\<open>UNRECOGNIZED\<close> for every other string. The round object is
  not touched and no payload is looked at.
\<close>

theorem C3_end_block_routes_by_submitter:
  assumes "db ''tx_submitter'' = Some v"
    and "decision_request_id \<noteq> bet_placement_id"
  shows "\<exists>event.
      PostTxSettlementRound_end_block decision_request_id bet_placement_id db
        = Inr (Some (db, event))
      \<and> (py_str v = decision_request_id \<longrightarrow> event = DECISION_REQUESTING_DONE)
      \<and> (py_str v = bet_placement_id \<longrightarrow> event = BET_PLACEMENT_DONE)
      \<and> (py_str v \<noteq> decision_request_id \<and> py_str v \<noteq> bet_placement_id
           \<longrightarrow> event = UNRECOGNIZED)
      \<and> (synchronized_data self = db \<longrightarrow>
           PostTxSettlementRound_end_block_self decision_request_id bet_placement_id self
             = (Inr (Some (db, event)), self))"
  using assms
  by (simp add: PostTxSettlementRound_end_block_def PostTxSettlementRound_end_block_self_def
      tx_submitter_def get_strict_def submitter_to_event_def)

theorem C3_end_block_routes_by_submitter_witness:
  "PostTxSettlementRound_end_block ''decision_request_round'' ''bet_placement_round''
       [''tx_submitter'' \<mapsto> PyStr ''decision_request_round'']
     = Inr (Some ([''tx_submitter'' \<mapsto> PyStr ''decision_request_round''],
                  DECISION_REQUESTING_DONE))
   \<and> PostTxSettlementRound_end_block ''decision_request_round'' ''bet_placement_round''
       [''tx_submitter'' \<mapsto> PyStr ''bet_placement_round'']
     = Inr (Some ([''tx_submitter'' \<mapsto> PyStr ''bet_placement_round''], BET_PLACEMENT_DONE))
   \<and> PostTxSettlementRound_end_block ''decision_request_round'' ''bet_placement_round''
       [''tx_submitter'' \<mapsto> PyStr ''redeem_round'']
     = Inr (Some ([''tx_submitter'' \<mapsto> PyStr ''redeem_round''], UNRECOGNIZED))"
  using
    C3_end_block_routes_by_submitter [where db = "[''tx_submitter'' \<mapsto> PyStr ''decision_request_round'']"
      and v = "PyStr ''decision_request_round''"
      and decision_request_id = "''decision_request_round''"
      and bet_placement_id = "''bet_placement_round''"]
    C3_end_block_routes_by_submitter [where db = "[''tx_submitter'' \<mapsto> PyStr ''bet_placement_round'']"
      and v = "PyStr ''bet_placement_round''"
      and decision_request_id = "''decision_request_round''"
      and bet_placement_id = "''bet_placement_round''"]
    C3_end_block_routes_by_submitter [where db = "[''tx_submitter'' \<mapsto> PyStr ''redeem_round'']"
      and v = "PyStr ''redeem_round''"
      and decision_request_id = "''decision_request_round''"
      and bet_placement_id = "''bet_placement_round''"]
  by (auto simp: py_str_def)




text \<open>
  C5. In both applications the only round outside \<^verbatim>\<open>final_states\<close> is the initial one, and
  every event it can produce, the round timeout included, is a key of its row of the
  transition function. The row of \<^verbatim>\<open>CallCheckpointRound\<close> has the keys \<^verbatim>\<open>DONE\<close>,
  \<^verbatim>\<open>SERVICE_NOT_STAKED\<close>, \<^verbatim>\<open>SERVICE_EVICTED\<close>, \<^verbatim>\<open>NEXT_CHECKPOINT_NOT_REACHED_YET\<close>,
  \<^verbatim>\<open>ROUND_TIMEOUT\<close> and \<^verbatim>\<open>NO_MAJORITY\<close>; the row of \<^verbatim>\<open>PostTxSettlementRound\<close> has
  \<^verbatim>\<open>DECISION_REQUESTING_DONE\<close>, \<^verbatim>\<open>BET_PLACEMENT_DONE\<close>, \<^verbatim>\<open>ROUND_TIMEOUT\<close> and
  \<^verbatim>\<open>UNRECOGNIZED\<close>. The rows of the rounds in \<^verbatim>\<open>final_states\<close> are empty.
\<close>

theorem C5_transition_tables_closed:
  "(r \<notin> StakingAbciApp_final_states \<longrightarrow>
      r = CallCheckpointRound
      \<and> (CallCheckpointRound_produces ev \<longrightarrow>
           ev \<in> events_of StakingAbciApp_transition_function r
           \<and> (\<exists>n. transition StakingAbciApp_transition_function r ev = Some n)))
   \<and> events_of StakingAbciApp_transition_function CallCheckpointRound
       = {DONE, SERVICE_NOT_STAKED, SERVICE_EVICTED, NEXT_CHECKPOINT_NOT_REACHED_YET,
          ROUND_TIMEOUT, NO_MAJORITY}
   \<and> (m \<notin> TxSettlementMultiplexerAbciApp_final_states \<longrightarrow>
      m = PostTxSettlementRound
      \<and> (PostTxSettlementRound_produces mev \<longrightarrow>
           mev \<in> events_of TxSettlementMultiplexerAbciApp_transition_function m
           \<and> (\<exists>n. transition TxSettlementMultiplexerAbciApp_transition_function m mev
                   = Some n)))
   \<and> events_of TxSettlementMultiplexerAbciApp_transition_function PostTxSettlementRound
       = {DECISION_REQUESTING_DONE, BET_PLACEMENT_DONE, ROUND_TIMEOUT_mux, UNRECOGNIZED}
   \<and> (f \<in> StakingAbciApp_final_states \<longrightarrow>
        events_of StakingAbciApp_transition_function f = {})
   \<and> (g \<in> TxSettlementMultiplexerAbciApp_final_states \<longrightarrow>
        events_of TxSettlementMultiplexerAbciApp_transition_function g = {})"
proof -
  have "ev \<in> events_of StakingAbciApp_transition_function CallCheckpointRound"
    unfolding CallCheckpointRound_row by (cases ev) simp_all
  moreover have
    "mev \<in> events_of TxSettlementMultiplexerAbciApp_transition_function PostTxSettlementRound"
    unfolding PostTxSettlementRound_row by (cases mev) simp_all
  ultimately show ?thesis
    using CallCheckpointRound_row PostTxSettlementRound_row
      CallCheckpointRound_next [of ev] PostTxSettlementRound_next [of mev]
      staking_final_row [of f] multiplexer_final_row [of g]
    by (simp add: staking_not_final multiplexer_not_final)
qed

theorem C5_transition_tables_closed_witness:
  "CallCheckpointRound \<notin> StakingAbciApp_final_states
   \<and> CallCheckpointRound_produces SERVICE_EVICTED
   \<and> transition StakingAbciApp_transition_function CallCheckpointRound SERVICE_EVICTED
       = Some ServiceEvictedRound
   \<and> PostTxSettlementRound \<notin> TxSettlementMultiplexerAbciApp_final_states
   \<and> PostTxSettlementRound_produces UNRECOGNIZED
   \<and> transition TxSettlementMultiplexerAbciApp_transition_function PostTxSettlementRound
       UNRECOGNIZED = Some FailedMultiplexerRound
   \<and> ServiceEvictedRound \<in> StakingAbciApp_final_states
   \<and> events_of StakingAbciApp_transition_function ServiceEvictedRound = {}
   \<and> FailedMultiplexerRound \<in> TxSettlementMultiplexerAbciApp_final_states
   \<and> events_of TxSettlementMultiplexerAbciApp_transition_function FailedMultiplexerRound = {}"
proof -
  have "CallCheckpointRound_end_block StakingState_by_value
          (Some ([''service_staking_state'' \<mapsto> PyInt 2], DONE))
        = Inr (Some ([''service_staking_state'' \<mapsto> PyInt 2], SERVICE_EVICTED))"
    by (simp add: end_block_evicted example_db_reads)
  then have p: "CallCheckpointRound_produces SERVICE_EVICTED"
    by (rule from_end_block [rotated]) (simp add: CallCheckpointRound_done_event_def)
  have "PostTxSettlementRound_end_block ''decision_request_round'' ''bet_placement_round''
          [''tx_submitter'' \<mapsto> PyStr ''redeem_round'']
        = Inr (Some ([''tx_submitter'' \<mapsto> PyStr ''redeem_round''], UNRECOGNIZED))"
    by (simp add: PostTxSettlementRound_end_block_def tx_submitter_def get_strict_def
        submitter_to_event_def py_str_def)
  then have q: "PostTxSettlementRound_produces UNRECOGNIZED"
    by (rule mux_from_end_block)
  show ?thesis
    using p q
      C5_transition_tables_closed [of CallCheckpointRound SERVICE_EVICTED
        PostTxSettlementRound UNRECOGNIZED ServiceEvictedRound FailedMultiplexerRound]
    by (simp add: StakingAbciApp_final_states_def TxSettlementMultiplexerAbciApp_final_states_def
        transition_def StakingAbciApp_transition_function_def
        TxSettlementMultiplexerAbciApp_transition_function_def)
qed

text \<open>
  C7, as stated, fails for \<^verbatim>\<open>TxSettlementMultiplexerAbciApp\<close>: the pre-condition set of its
  initial round is neither empty nor within the cross-period persisted keys it declares.
\<close>

theorem C7_multiplexer_pre_condition_not_persisted:
  "\<not> (initial_pre_conditions TxSettlementMultiplexerAbciApp_db_pre_conditions
          TxSettlementMultiplexerAbciApp_initial_round_cls = {}
      \<or> initial_pre_conditions TxSettlementMultiplexerAbciApp_db_pre_conditions
          TxSettlementMultiplexerAbciApp_initial_round_cls
        \<subseteq> TxSettlementMultiplexerAbciApp_cross_period_persisted_keys)"
  by (simp add: initial_pre_conditions_def TxSettlementMultiplexerAbciApp_db_pre_conditions_def
      TxSettlementMultiplexerAbciApp_initial_round_cls_def
      TxSettlementMultiplexerAbciApp_cross_period_persisted_keys_def)

text \<open>
  C7, amended. The initial round of \<^verbatim>\<open>StakingAbciApp\<close> declares the empty pre-condition
  set. The initial round of \<^verbatim>\<open>TxSettlementMultiplexerAbciApp\<close> declares the one key
  \<^verbatim>\<open>tx_submitter\<close>, and the application declares no cross-period persisted key: the key is
  to be written before the application is entered.
\<close>

theorem C7_initial_pre_conditions:
  "initial_pre_conditions StakingAbciApp_db_pre_conditions StakingAbciApp_initial_round_cls = {}
   \<and> initial_pre_conditions TxSettlementMultiplexerAbciApp_db_pre_conditions
       TxSettlementMultiplexerAbciApp_initial_round_cls = {''tx_submitter''}
   \<and> TxSettlementMultiplexerAbciApp_cross_period_persisted_keys = {}
   \<and> StakingAbciApp_cross_period_persisted_keys = {''service_staking_state''}"
  by (simp add: initial_pre_conditions_def StakingAbciApp_db_pre_conditions_def
      StakingAbciApp_initial_round_cls_def TxSettlementMultiplexerAbciApp_db_pre_conditions_def
      TxSettlementMultiplexerAbciApp_initial_round_cls_def
      TxSettlementMultiplexerAbciApp_cross_period_persisted_keys_def
      StakingAbciApp_cross_period_persisted_keys_def)

text \<open>
  C8. The transition functions route the no-majority and round-timeout events of a round
  back to the round itself: \<^verbatim>\<open>StakingAbciApp\<close> sends \<^verbatim>\<open>NO_MAJORITY\<close> and \<^verbatim>\<open>ROUND_TIMEOUT\<close>
  of \<^verbatim>\<open>CallCheckpointRound\<close> to \<^verbatim>\<open>CallCheckpointRound\<close>, and
  \<^verbatim>\<open>TxSettlementMultiplexerAbciApp\<close> sends \<^verbatim>\<open>ROUND_TIMEOUT\<close> of \<^verbatim>\<open>PostTxSettlementRound\<close> to
  \<^verbatim>\<open>PostTxSettlementRound\<close>.
\<close>

theorem C8_timeout_and_no_majority_rerun_round:
  "transition StakingAbciApp_transition_function CallCheckpointRound NO_MAJORITY
     = Some CallCheckpointRound
   \<and> transition StakingAbciApp_transition_function CallCheckpointRound ROUND_TIMEOUT
     = Some CallCheckpointRound
   \<and> transition TxSettlementMultiplexerAbciApp_transition_function PostTxSettlementRound
       ROUND_TIMEOUT_mux = Some PostTxSettlementRound"
  by (simp add: transition_def StakingAbciApp_transition_function_def
      TxSettlementMultiplexerAbciApp_transition_function_def)

section \<open>True division: the nearest float\<close>

lemma pow2_powi: "pow2 k = 2 powi k"
  by (simp add: pow2_def power_int_def field_simps)

lemma pow2_pos: "0 < pow2 k"
  by (simp add: pow2_powi)

lemma pow2_add: "pow2 (a + b) = pow2 a * pow2 b"
  by (simp add: pow2_powi power_int_add)

lemma pow2_mono: "a \<le> b \<Longrightarrow> pow2 a \<le> pow2 b"
  by (simp add: pow2_powi power_int_increasing)

lemma pow2_strict_mono: "a < b \<Longrightarrow> pow2 a < pow2 b"
  by (simp add: pow2_powi power_int_strict_increasing)

lemma pow2_nat: "pow2 (int n) = 2 ^ n"
  by (simp add: pow2_def)

lemma halving_bounds:
  fixes n p :: int
  shows "p \<le> n div 2 \<Longrightarrow> n div 2 < 2 * p \<Longrightarrow> 2 * p \<le> n \<and> n < 4 * p"
  by presburger

lemma bit_length_bounds:
  "0 < n \<Longrightarrow> 2 ^ (bit_length n - 1) \<le> n \<and> n < 2 ^ bit_length n"
proof (induction n rule: bit_length.induct)
  case (1 n)
  show ?case
  proof (cases "n = 1")
    case True
    then show ?thesis by (simp add: bit_length.simps)
  next
    case False
    with "1.prems" have pos: "0 < n div 2" by simp
    from "1.IH" "1.prems" pos
    have ih: "2 ^ (bit_length (n div 2) - 1) \<le> n div 2" "n div 2 < 2 ^ bit_length (n div 2)"
      by simp_all
    have bl: "bit_length n = Suc (bit_length (n div 2))"
      using "1.prems" by (subst bit_length.simps) simp
    have pos_bl: "0 < bit_length (n div 2)"
      using pos by (subst bit_length.simps) simp
    then obtain k where k: "bit_length (n div 2) = Suc k"
      by (cases "bit_length (n div 2)") simp_all
    from ih halving_bounds [of "2 ^ k" n] show ?thesis unfolding bl k by simp
  qed
qed

lemma bit_length_pos: "0 < n \<Longrightarrow> 0 < bit_length n"
  by (subst bit_length.simps) simp

lemma bit_length_bounds_rat:
  assumes "0 < n"
  shows "pow2 (int (bit_length n) - 1) \<le> of_int n"
    and "(of_int n :: rat) < pow2 (int (bit_length n))"
proof -
  define l where "l = bit_length n"
  have l: "2 ^ (l - 1) \<le> n" "n < 2 ^ l" "0 < l"
    using bit_length_bounds [OF assms] bit_length_pos [OF assms] by (simp_all add: l_def)
  have "(of_int (2 ^ (l - 1)) :: rat) \<le> of_int n"
    using l(1) by (simp only: of_int_le_iff)
  then have lo: "(2::rat) ^ (l - 1) \<le> of_int n" by simp
  have "(of_int n :: rat) < of_int (2 ^ l)"
    using l(2) by (simp only: of_int_less_iff)
  then have hi: "(of_int n :: rat) < 2 ^ l" by simp
  have "nat (int l - 1) = l - 1" by simp
  moreover have "0 \<le> int l - 1" using l(3) by simp
  ultimately have "pow2 (int l - 1) = 2 ^ (l - 1)" by (simp add: pow2_def)
  with lo show "pow2 (int (bit_length n) - 1) \<le> of_int n" by (simp add: l_def)
  from hi show "(of_int n :: rat) < pow2 (int (bit_length n))" by (simp add: pow2_nat l_def)
qed

text \<open>The exponent found is the binary exponent of the quotient.\<close>

lemma quotient_exponent_bounds:
  assumes a: "0 < a" and b: "0 < b"
  shows "pow2 (quotient_exponent a b) \<le> of_int a / of_int b"
    and "of_int a / of_int b < pow2 (quotient_exponent a b + 1)"
proof -
  define la where "la = bit_length a"
  define lb where "lb = bit_length b"
  define d where "d = int la - int lb"
  have la: "pow2 (int la - 1) \<le> of_int a" "(of_int a :: rat) < pow2 (int la)"
    using bit_length_bounds_rat [OF a] by (simp_all add: la_def)
  have lb: "pow2 (int lb - 1) \<le> of_int b" "(of_int b :: rat) < pow2 (int lb)"
    using bit_length_bounds_rat [OF b] by (simp_all add: lb_def)
  note ra = la and rb = lb
  have bpos: "(0::rat) < of_int b" using b by simp
  have apos: "(0::rat) < of_int a" using a by simp
  have lower: "pow2 (d - 1) < of_int a / of_int b"
  proof -
    have "pow2 (d - 1) * of_int b < pow2 (d - 1) * pow2 (int lb)"
      using rb(2) pow2_pos [of "d - 1"] by simp
    also have "\<dots> = pow2 (int la - 1)"
      by (simp add: pow2_add [symmetric] d_def)
    also have "\<dots> \<le> of_int a" by (rule ra(1))
    finally show ?thesis using bpos by (simp add: pos_less_divide_eq)
  qed
  have upper: "of_int a / of_int b < pow2 (d + 1)"
  proof -
    have "of_int a < pow2 (int la)" by (rule ra(2))
    also have "\<dots> = pow2 (d + 1) * pow2 (int lb - 1)"
      by (simp add: pow2_add [symmetric] d_def)
    also have "\<dots> \<le> pow2 (d + 1) * of_int b"
      using rb(1) pow2_pos [of "d + 1"] by simp
    finally show ?thesis using bpos by (simp add: pos_divide_less_eq)
  qed
  have qe: "quotient_exponent a b = (if pow2 d \<le> of_int a / of_int b then d else d - 1)"
    by (simp add: quotient_exponent_def d_def la_def lb_def)
  show "pow2 (quotient_exponent a b) \<le> of_int a / of_int b"
    using lower by (simp add: qe)
  show "of_int a / of_int b < pow2 (quotient_exponent a b + 1)"
    using upper by (auto simp: qe)
qed

lemma pow2_exponent_unique:
  assumes "pow2 e \<le> x" "x < pow2 (e + 1)" "pow2 e' \<le> x" "x < pow2 (e' + 1)"
  shows "e = e'"
proof (rule ccontr)
  assume "e \<noteq> e'"
  then consider "e + 1 \<le> e'" | "e' + 1 \<le> e" by linarith
  then show False
  proof cases
    case 1
    then have "pow2 (e + 1) \<le> pow2 e'" by (rule pow2_mono)
    with assms show False by simp
  next
    case 2
    then have "pow2 (e' + 1) \<le> pow2 e" by (rule pow2_mono)
    with assms show False by simp
  qed
qed

lemma quotient_exponent_eq:
  assumes "0 < a" "0 < b" "pow2 e \<le> of_int a / of_int b" "of_int a / of_int b < pow2 (e + 1)"
  shows "quotient_exponent a b = e"
  using pow2_exponent_unique [OF quotient_exponent_bounds [OF assms(1,2)] assms(3,4)] .

lemma round_half_even_near:
  assumes "\<bar>x - of_int m\<bar> < 1 / 2"
  shows "round_half_even x = m"
proof -
  have lo: "x - of_int m < 1 / 2" and hi: "of_int m - x < 1 / 2"
    using assms by linarith+
  have "of_int (m - 1) \<le> x" using hi by simp
  then have f1: "m - 1 \<le> \<lfloor>x\<rfloor>" by (simp only: le_floor_iff)
  have "x < of_int (m + 1)" using lo by simp
  then have f2: "\<lfloor>x\<rfloor> < m + 1" by (simp only: floor_less_iff)
  from f1 f2 consider "\<lfloor>x\<rfloor> = m" | "\<lfloor>x\<rfloor> = m - 1" by linarith
  then show ?thesis
  proof cases
    case 1
    with lo show ?thesis by (simp add: round_half_even_def Let_def)
  next
    case 2
    have "1 / 2 < x - of_int (m - 1)" using hi by simp
    with 2 show ?thesis by (simp add: round_half_even_def Let_def)
  qed
qed

lemma round_half_even_of_int: "round_half_even (of_int m) = m"
  by (rule round_half_even_near) simp


lemma round_half_even_error: "\<bar>of_int (round_half_even x) - x\<bar> \<le> 1 / 2"
proof -
  have "of_int \<lfloor>x\<rfloor> \<le> x" "x < of_int \<lfloor>x\<rfloor> + 1" by linarith+
  then show ?thesis by (auto simp: round_half_even_def Let_def abs_le_iff)
qed

lemma pow2_less_cancel: "pow2 e \<le> x \<Longrightarrow> x < pow2 f \<Longrightarrow> e < f"
proof (rule ccontr)
  assume a: "pow2 e \<le> x" "x < pow2 f" and "\<not> e < f"
  then have "pow2 f \<le> pow2 e" by (simp add: pow2_mono)
  with a show False by simp
qed

lemma py_truediv_pos:
  assumes "0 < a" "0 < b"
  shows "py_truediv a b =
    (let q = max (quotient_exponent a b - 52) (- 1074);
         y = of_int (round_half_even (of_int a / of_int b / pow2 q)) * pow2 q
     in if 2 ^ 1024 \<le> y then Inl OverflowError else Inr y)"
proof -
  have "\<bar>(of_int a :: rat) / of_int b\<bar> = of_int a / of_int b"
    using assms by simp
  moreover have "\<bar>a\<bar> = a" "\<bar>b\<bar> = b" using assms by simp_all
  ultimately show ?thesis
    using assms by (simp add: py_truediv_def Let_def)
qed

lemma py_truediv_near:
  assumes a: "0 < a" and b: "0 < b"
    and e: "pow2 e \<le> of_int a / of_int b" "of_int a / of_int b < pow2 (e + 1)"
    and normal: "- 1022 \<le> e"
    and m: "\<bar>of_int a / of_int b / pow2 (e - 52) - of_int m\<bar> < 1 / 2"
    and fin: "of_int m * pow2 (e - 52) < 2 ^ 1024"
  shows "py_truediv a b = Inr (of_int m * pow2 (e - 52))"
proof -
  have qe: "quotient_exponent a b = e"
    using a b e by (rule quotient_exponent_eq)
  have q: "max (e - 52) (- 1074) = e - 52" using normal by simp
  have r: "round_half_even (of_int a / of_int b / pow2 (e - 52)) = m"
    using m by (rule round_half_even_near)
  show ?thesis
    unfolding py_truediv_pos [OF a b] qe q Let_def r using fin by simp
qed

lemma py_truediv_exact:
  assumes k: "0 < k" "k < 2 ^ 53" and b: "0 < b"
  shows "py_truediv (k * b) b = Inr (of_int k)"
proof -
  have a: "0 < k * b" using k b by simp
  have quot: "(of_int (k * b) :: rat) / of_int b = of_int k" using b by simp
  define e where "e = quotient_exponent (k * b) b"
  have eb: "pow2 e \<le> of_int k" "(of_int k :: rat) < pow2 (e + 1)"
    using quotient_exponent_bounds [OF a b] b by (simp_all add: e_def)
  have k1: "pow2 0 \<le> (of_int k :: rat)" using k(1) by (simp add: pow2_def)
  have "(of_int k :: rat) < of_int (2 ^ 53)" using k(2) by (simp only: of_int_less_iff)
  then have k53: "(of_int k :: rat) < pow2 53" by (simp add: pow2_def)
  have e0: "0 \<le> e" using pow2_less_cancel [OF k1 eb(2)] by simp
  have e52: "e \<le> 52" using pow2_less_cancel [OF eb(1) k53] by simp
  have q: "max (e - 52) (- 1074) = e - 52" using e0 by simp
  define n where "n = nat (52 - e)"
  have pq: "pow2 (e - 52) = 1 / 2 ^ n"
    using e52 by (cases "e = 52") (simp_all add: pow2_def n_def)
  have "(of_int k :: rat) / pow2 (e - 52) = of_int (k * 2 ^ n)"
    by (simp add: pq)
  then have r: "round_half_even (of_int k / pow2 (e - 52)) = k * 2 ^ n"
    by (simp only: round_half_even_of_int)
  have y: "of_int (k * 2 ^ n) * pow2 (e - 52) = (of_int k :: rat)"
    by (simp add: pq)
  have "(of_int k :: rat) < 2 ^ 1024"
  proof -
    have "(2::rat) ^ 53 \<le> 2 ^ 1024" by (rule power_increasing) simp_all
    moreover have "(of_int k :: rat) < 2 ^ 53" using k53 by (simp add: pow2_def)
    ultimately show ?thesis by linarith
  qed
  then show ?thesis
    by (simp only: py_truediv_pos [OF a b] quot e_def [symmetric] q r y Let_def)
      simp
qed

lemma py_truediv_zero: "b \<noteq> 0 \<Longrightarrow> py_truediv 0 b = Inr 0"
  by (simp add: py_truediv_def)

lemma py_truediv_exact0:
  assumes "0 \<le> k" "k < 2 ^ 53" "0 < b"
  shows "py_truediv (k * b) b = Inr (of_int k)"
proof (cases "k = 0")
  case True
  with assms(3) show ?thesis by (simp add: py_truediv_zero)
next
  case False
  with assms(1) have "0 < k" by simp
  then show ?thesis using assms(2,3) by (rule py_truediv_exact)
qed

lemma round_half_even_nonneg: "0 \<le> x \<Longrightarrow> 0 \<le> round_half_even x"
proof -
  assume "0 \<le> x"
  then have "0 \<le> \<lfloor>x\<rfloor>" by simp
  then show ?thesis by (simp add: round_half_even_def Let_def)
qed

text \<open>
  Below \<open>2^1023\<close> the division does not overflow, and its result is within half a unit
  in the last place of the exact quotient.
\<close>

lemma py_truediv_nearest:
  assumes a: "0 < a" and b: "0 < b" and bound: "of_int a / of_int b < (2::rat) ^ 1023"
  shows "\<exists>x. py_truediv a b = Inr x \<and> 0 \<le> x
           \<and> \<bar>x - of_int a / of_int b\<bar> \<le> of_int a / of_int b / 2 ^ 53 + 1 / 2 ^ 1075"
proof -
  define t :: rat where "t = of_int a / of_int b"
  define e where "e = quotient_exponent a b"
  define q where "q = max (e - 52) (- 1074)"
  define m where "m = round_half_even (t / pow2 q)"
  define y where "y = of_int m * pow2 q"
  have tpos: "0 < t" using a b by (simp add: t_def)
  have eb: "pow2 e \<le> t" "t < pow2 (e + 1)"
    using quotient_exponent_bounds [OF a b] by (simp_all add: t_def e_def)
  have "t < pow2 1023" using bound by (simp add: pow2_def t_def)
  then have e1022: "e \<le> 1022" using pow2_less_cancel [OF eb(1)] by fastforce
  have pq: "0 < pow2 q" by (rule pow2_pos)
  have err: "\<bar>of_int m - t / pow2 q\<bar> \<le> 1 / 2"
    unfolding m_def by (rule round_half_even_error)
  have "y - t = (of_int m - t / pow2 q) * pow2 q"
    using pq by (simp add: y_def field_simps)
  then have "\<bar>y - t\<bar> = \<bar>of_int m - t / pow2 q\<bar> * pow2 q"
    using pq by (simp add: abs_mult)
  also have "\<dots> \<le> 1 / 2 * pow2 q"
    using err pq by (simp add: mult_right_mono)
  finally have dist: "\<bar>y - t\<bar> \<le> pow2 q / 2" by simp
  have half: "pow2 q / 2 = pow2 (q - 1)"
    using pow2_add [of "q - 1" 1] by (simp add: pow2_def [of 1])
  have small: "pow2 (q - 1) \<le> t / 2 ^ 53 + 1 / 2 ^ 1075"
  proof (cases "- 1074 \<le> e - 52")
    case True
    then have "q = e - 52" by (simp add: q_def)
    then have "pow2 (q - 1) = pow2 e * pow2 (- 53)"
      using pow2_add [of e "- 53"] by simp
    also have "\<dots> = pow2 e / 2 ^ 53" by (simp add: pow2_def)
    also have "\<dots> \<le> t / 2 ^ 53" using eb(1) by (simp add: divide_right_mono)
    finally show ?thesis by simp
  next
    case False
    then have "q = - 1074" by (simp add: q_def)
    then have "pow2 (q - 1) = 1 / 2 ^ 1075" by (simp add: pow2_def)
    then show ?thesis using tpos by simp
  qed
  have big: "pow2 (q - 1) \<le> 2 ^ 969"
  proof -
    have "q - 1 \<le> 969" using e1022 by (simp add: q_def)
    then have "pow2 (q - 1) \<le> pow2 969" by (rule pow2_mono)
    then show ?thesis by (simp add: pow2_def)
  qed
  have "y \<le> t + pow2 (q - 1)" using dist half by linarith
  also have "\<dots> < 2 ^ 1023 + 2 ^ 969" using bound big by (simp add: t_def)
  also have "\<dots> \<le> (2::rat) ^ 1024" by simp
  finally have fin: "\<not> 2 ^ 1024 \<le> y" by simp
  have "0 \<le> t / pow2 q" using tpos pq by simp
  then have "0 \<le> m" unfolding m_def by (rule round_half_even_nonneg)
  then have ypos: "0 \<le> y" using pq by (simp add: y_def)
  have res: "py_truediv a b = Inr y"
    using fin
    unfolding py_truediv_pos [OF a b] Let_def e_def [symmetric] q_def [symmetric]
      t_def [symmetric] m_def [symmetric] y_def [symmetric]
    by simp
  show ?thesis
    using res ypos dist half small by (intro exI [of _ y]) (simp add: t_def)
qed


text \<open>Rounding to even against an even bound.\<close>

lemma round_half_even_ge:
  assumes "of_int n - 1 / 2 \<le> x" and "even n"
  shows "n \<le> round_half_even x"
proof -
  have "of_int (n - 1) \<le> x" using assms(1) by simp
  then have f: "n - 1 \<le> \<lfloor>x\<rfloor>" by (simp only: le_floor_iff)
  show ?thesis
  proof (cases "\<lfloor>x\<rfloor> = n - 1")
    case True
    then have "x - of_int \<lfloor>x\<rfloor> = x - of_int n + 1" by simp
    with assms(1) have frac: "1 / 2 \<le> x - of_int \<lfloor>x\<rfloor>" by linarith
    have odd: "odd \<lfloor>x\<rfloor>" using True assms(2) by simp
    show ?thesis using frac odd True by (simp add: round_half_even_def Let_def)
  next
    case False
    with f have "n \<le> \<lfloor>x\<rfloor>" by linarith
    then show ?thesis by (auto simp: round_half_even_def Let_def)
  qed
qed

lemma round_half_even_less:
  assumes "x < of_int n - 1 / 2"
  shows "round_half_even x < n"
proof -
  have "x < of_int n" using assms by linarith
  then have f: "\<lfloor>x\<rfloor> < n" by (simp only: floor_less_iff)
  show ?thesis
  proof (cases "\<lfloor>x\<rfloor> = n - 1")
    case True
    then have "x - of_int \<lfloor>x\<rfloor> = x - of_int n + 1" by simp
    with assms have "x - of_int \<lfloor>x\<rfloor> < 1 / 2" by linarith
    then show ?thesis using True by (simp add: round_half_even_def Let_def)
  next
    case False
    with f have "\<lfloor>x\<rfloor> + 1 < n" by linarith
    then show ?thesis by (auto simp: round_half_even_def Let_def)
  qed
qed

text \<open>
  In the normal range the division either overflows, from \<open>2^1024 - 2^970\<close> on, or gives a
  float within a relative error of \<open>2^-53\<close> of the exact quotient.
\<close>

lemma py_truediv_overflow:
  assumes a: "0 < a" and b: "0 < b"
    and big: "(2::rat) ^ 1024 - 2 ^ 970 \<le> of_int a / of_int b"
  shows "py_truediv a b = Inl OverflowError"
proof -
  define t :: rat where "t = of_int a / of_int b"
  define e where "e = quotient_exponent a b"
  define q where "q = max (e - 52) (- 1074)"
  define m where "m = round_half_even (t / pow2 q)"
  define y where "y = of_int m * pow2 q"
  have eb: "pow2 e \<le> t" "t < pow2 (e + 1)"
    using quotient_exponent_bounds [OF a b] by (simp_all add: t_def e_def)
  have "(2::rat) ^ 1023 \<le> 2 ^ 1024 - 2 ^ 970" by simp
  with big have "pow2 1023 \<le> t" by (simp add: pow2_def t_def)
  from pow2_less_cancel [OF this eb(2)] have e: "1023 \<le> e" by simp
  then have q: "q = e - 52" by (simp add: q_def)
  have pq: "0 < pow2 q" by (rule pow2_pos)
  have "2 ^ 1024 \<le> y"
  proof (cases "e = 1023")
    case True
    then have q971: "pow2 q = 2 ^ 971" by (simp add: q pow2_def)
    have "((2::rat) ^ 1024 - 2 ^ 970) / 2 ^ 971 \<le> t / 2 ^ 971"
      using big by (simp add: divide_right_mono t_def)
    moreover have "((2::rat) ^ 1024 - 2 ^ 970) / 2 ^ 971 = of_int (2 ^ 53) - 1 / 2"
      by simp
    ultimately have "of_int (2 ^ 53) - 1 / 2 \<le> t / pow2 q"
      by (simp only: q971)
    then have "2 ^ 53 \<le> m"
      unfolding m_def by (rule round_half_even_ge) simp
    then have "(of_int (2 ^ 53) :: rat) \<le> of_int m"
      by (simp only: of_int_le_iff)
    then have "(2::rat) ^ 53 * 2 ^ 971 \<le> of_int m * 2 ^ 971"
      by (simp add: mult_right_mono)
    then show ?thesis by (simp add: y_def q971)
  next
    case False
    with e have e1024: "1024 \<le> e" by simp
    have "pow2 e / pow2 q \<le> t / pow2 q"
      using eb(1) pq by (simp add: divide_right_mono)
    moreover have "pow2 e / pow2 q = 2 ^ 52"
      using pow2_add [of q 52] pq by (simp add: q pow2_def [of 52])
    ultimately have "(2::rat) ^ 52 \<le> t / pow2 q" by simp
    moreover have "(of_int (2 ^ 52) :: rat) = 2 ^ 52" by simp
    ultimately have "of_int (2 ^ 52) - 1 / 2 \<le> t / pow2 q" by linarith
    then have "2 ^ 52 \<le> m"
      unfolding m_def by (rule round_half_even_ge) simp
    then have "(of_int (2 ^ 52) :: rat) \<le> of_int m"
      by (simp only: of_int_le_iff)
    then have "2 ^ 52 * pow2 q \<le> of_int m * pow2 q"
      using pq by (simp add: mult_right_mono)
    moreover have "2 ^ 52 * pow2 q = pow2 e"
      using pow2_add [of q 52] by (simp add: q pow2_def [of 52])
    moreover have "pow2 1024 \<le> pow2 e" using e1024 by (rule pow2_mono)
    ultimately show ?thesis by (simp add: y_def pow2_def [of 1024])
  qed
  then show ?thesis
    unfolding py_truediv_pos [OF a b] Let_def e_def [symmetric] q_def [symmetric]
      t_def [symmetric] m_def [symmetric] y_def [symmetric]
    by simp
qed

lemma py_truediv_normal:
  assumes a: "0 < a" and b: "0 < b"
    and normal: "1 / 2 ^ 1022 \<le> (of_int a :: rat) / of_int b"
    and bound: "of_int a / of_int b < (2::rat) ^ 1024 - 2 ^ 970"
  shows "\<exists>x. py_truediv a b = Inr x \<and> 0 \<le> x
           \<and> \<bar>x - of_int a / of_int b\<bar> \<le> of_int a / of_int b / 2 ^ 53"
proof -
  define t :: rat where "t = of_int a / of_int b"
  define e where "e = quotient_exponent a b"
  define q where "q = max (e - 52) (- 1074)"
  define m where "m = round_half_even (t / pow2 q)"
  define y where "y = of_int m * pow2 q"
  have tpos: "0 < t" using a b by (simp add: t_def)
  have eb: "pow2 e \<le> t" "t < pow2 (e + 1)"
    using quotient_exponent_bounds [OF a b] by (simp_all add: t_def e_def)
  have "pow2 (- 1022) \<le> t" using normal by (simp add: pow2_def t_def)
  from pow2_less_cancel [OF this eb(2)] have elow: "- 1022 \<le> e" by simp
  then have q: "q = e - 52" by (simp add: q_def)
  have "t < pow2 1024" using bound by (simp add: pow2_def t_def)
  from pow2_less_cancel [OF eb(1) this] have ehigh: "e \<le> 1023" by simp
  have pq: "0 < pow2 q" by (rule pow2_pos)
  have err: "\<bar>of_int m - t / pow2 q\<bar> \<le> 1 / 2"
    unfolding m_def by (rule round_half_even_error)
  have "y - t = (of_int m - t / pow2 q) * pow2 q"
    using pq by (simp add: y_def field_simps)
  then have "\<bar>y - t\<bar> = \<bar>of_int m - t / pow2 q\<bar> * pow2 q"
    using pq by (simp add: abs_mult)
  also have "\<dots> \<le> 1 / 2 * pow2 q"
    using err pq by (simp add: mult_right_mono)
  finally have dist: "\<bar>y - t\<bar> \<le> pow2 q / 2" by simp
  have half: "pow2 q / 2 = pow2 (q - 1)"
    using pow2_add [of "q - 1" 1] by (simp add: pow2_def [of 1])
  have "pow2 (q - 1) = pow2 e * pow2 (- 53)"
    using pow2_add [of e "- 53"] by (simp add: q)
  also have "\<dots> = pow2 e / 2 ^ 53" by (simp add: pow2_def)
  also have "\<dots> \<le> t / 2 ^ 53" using eb(1) by (simp add: divide_right_mono)
  finally have small: "pow2 (q - 1) \<le> t / 2 ^ 53" .
  have fin: "\<not> 2 ^ 1024 \<le> y"
  proof (cases "e = 1023")
    case True
    then have q971: "pow2 q = 2 ^ 971" by (simp add: q pow2_def)
    have "t / 2 ^ 971 < ((2::rat) ^ 1024 - 2 ^ 970) / 2 ^ 971"
      using bound by (simp add: divide_strict_right_mono t_def)
    moreover have "((2::rat) ^ 1024 - 2 ^ 970) / 2 ^ 971 = of_int (2 ^ 53) - 1 / 2"
      by simp
    ultimately have "t / pow2 q < of_int (2 ^ 53) - 1 / 2"
      by (simp only: q971)
    then have "m < 2 ^ 53"
      unfolding m_def by (rule round_half_even_less)
    then have "m \<le> 2 ^ 53 - 1" by simp
    then have "(of_int m :: rat) \<le> of_int (2 ^ 53 - 1)"
      by (simp only: of_int_le_iff)
    then have "of_int m * (2::rat) ^ 971 \<le> of_int (2 ^ 53 - 1) * 2 ^ 971"
      by (simp add: mult_right_mono)
    also have "\<dots> < (2::rat) ^ 1024" by simp
    finally show ?thesis by (simp add: y_def q971)
  next
    case False
    with ehigh have "q - 1 \<le> 969" by (simp add: q)
    then have "pow2 (q - 1) \<le> pow2 969" by (rule pow2_mono)
    then have big: "pow2 (q - 1) \<le> 2 ^ 969" by (simp add: pow2_def)
    from False ehigh have "e + 1 \<le> 1023" by simp
    then have "pow2 (e + 1) \<le> pow2 1023" by (rule pow2_mono)
    with eb(2) have t1023: "t < 2 ^ 1023" by (simp add: pow2_def)
    have "y \<le> t + pow2 (q - 1)" using dist half by linarith
    also have "\<dots> < 2 ^ 1023 + 2 ^ 969" using t1023 big by simp
    also have "\<dots> \<le> (2::rat) ^ 1024" by simp
    finally show ?thesis by simp
  qed
  have "0 \<le> t / pow2 q" using tpos pq by simp
  then have "0 \<le> m" unfolding m_def by (rule round_half_even_nonneg)
  then have ypos: "0 \<le> y" using pq by (simp add: y_def)
  have res: "py_truediv a b = Inr y"
    using fin
    unfolding py_truediv_pos [OF a b] Let_def e_def [symmetric] q_def [symmetric]
      t_def [symmetric] m_def [symmetric] y_def [symmetric]
    by simp
  show ?thesis
    using res ypos dist half small by (intro exI [of _ y]) (simp add: t_def)
qed

text \<open>The sign of the quotient: the division rounds the magnitude.\<close>

lemma py_truediv_negative:
  assumes "a < 0" and "0 < b"
  shows "py_truediv a b = (case py_truediv (- a) b of Inl err \<Rightarrow> Inl err | Inr y \<Rightarrow> Inr (- y))"
proof -
  define t :: rat where "t = of_int (- a) / of_int b"
  define q where "q = max (quotient_exponent (- a) b - 52) (- 1074)"
  define y where "y = of_int (round_half_even (t / pow2 q)) * pow2 q"
  have magnitude: "\<bar>(of_int a :: rat) / of_int b\<bar> = t"
    using assms by (simp add: t_def abs_if divide_neg_pos)
  have ints: "\<bar>a\<bar> = - a" "\<bar>b\<bar> = b" "b \<noteq> 0" "a \<noteq> 0" "(a < 0) \<noteq> (b < 0)"
    using assms by simp_all
  have negative: "py_truediv a b = (if 2 ^ 1024 \<le> y then Inl OverflowError else Inr (- y))"
    unfolding py_truediv_def magnitude ints(1,2) Let_def q_def [symmetric] y_def [symmetric]
    using ints(3,4,5) by simp
  have positive: "py_truediv (- a) b = (if 2 ^ 1024 \<le> y then Inl OverflowError else Inr y)"
    using assms
    unfolding py_truediv_pos [of "- a" b, simplified] Let_def t_def [symmetric]
      q_def [symmetric] y_def [symmetric]
    by (simp add: py_truediv_pos Let_def t_def q_def y_def)
  show ?thesis unfolding negative positive by simp
qed
section \<open>Properties of the stop-trading check\<close>

lemma is_staking_kpi_met_staked:
  assumes "read_service_staking_state env = STAKED"
    and "py_index (service_info_2 env) 1 = Inr c0"
  shows "fst (is_staking_kpi_met env) =
           (case required_mech_requests (synced_timestamp env) (ts_checkpoint env)
                   (liveness_period env) (liveness_ratio env) of
              Inl e \<Rightarrow> Inl e
            | Inr required \<Rightarrow> Inr (required \<le> read_mech_request_count env - c0))"
  using assms by (simp add: is_staking_kpi_met_def Let_def split: sum.splits)

lemma required_mech_requests_floats:
  assumes "py_truediv ((t_now - t_cp) * ratio) (10 ^ 18) = Inr x"
    and "py_truediv (period * ratio) (10 ^ 18) = Inr y"
  shows "required_mech_requests t_now t_cp period ratio = Inr (\<lceil>max x y\<rceil> + 1)"
  using assms
  by (simp add: required_mech_requests_def LIVENESS_RATIO_SCALE_FACTOR_def math_ceil_def
      REQUIRED_MECH_REQUESTS_SAFETY_MARGIN_def)

lemma py_truediv_multiple:
  assumes "0 \<le> n" "(10 ^ 18 :: int) dvd n" "n div 10 ^ 18 < 2 ^ 53"
  shows "py_truediv n (10 ^ 18) = Inr (of_int n / 10 ^ 18)"
proof -
  define k where "k = n div 10 ^ 18"
  have n: "n = k * 10 ^ 18" using assms(2) by (simp add: k_def)
  have "0 \<le> k" using assms(1) by (simp add: k_def pos_imp_zdiv_nonneg_iff)
  then have "py_truediv (k * 10 ^ 18) (10 ^ 18) = Inr (of_int k)"
    using assms(3) by (intro py_truediv_exact0) (simp_all add: k_def)
  moreover have "(of_int n :: rat) / 10 ^ 18 = of_int k" by (simp add: n)
  ultimately show ?thesis by (simp add: n)
qed

text \<open>
  Division by the scale factor, for every integer: a float within a relative error of
  \<open>2^-53\<close>, or \<^verbatim>\<open>OverflowError\<close> from \<open>(2^1024 - 2^970) * 10^18\<close> on.
\<close>

lemma py_truediv_scale_pos:
  assumes "0 < n" "n < (2 ^ 1024 - 2 ^ 970) * 10 ^ 18"
  shows "\<exists>x. py_truediv n (10 ^ 18) = Inr x \<and> 0 \<le> x
           \<and> \<bar>x - of_int n / 10 ^ 18\<bar> \<le> of_int n / 10 ^ 18 / 2 ^ 53"
proof -
  have "(1::rat) \<le> of_int n" using assms(1) by simp
  then have "(1::rat) / 10 ^ 18 \<le> of_int n / 10 ^ 18"
    by (simp add: divide_right_mono)
  moreover have "(1::rat) / 2 ^ 1022 \<le> 1 / 10 ^ 18" by simp
  ultimately have normal: "1 / 2 ^ 1022 \<le> (of_int n :: rat) / of_int (10 ^ 18)"
    by simp
  have "(of_int n :: rat) < of_int ((2 ^ 1024 - 2 ^ 970) * 10 ^ 18)"
    using assms(2) by (simp only: of_int_less_iff)
  then have "(of_int n :: rat) / of_int (10 ^ 18) < 2 ^ 1024 - 2 ^ 970"
    by (simp add: pos_divide_less_eq)
  from py_truediv_normal [OF assms(1) _ normal this] show ?thesis by simp
qed

lemma py_truediv_scale_in_range:
  assumes "\<bar>n\<bar> < (2 ^ 1024 - 2 ^ 970) * 10 ^ 18"
  shows "\<exists>x. py_truediv n (10 ^ 18) = Inr x
           \<and> \<bar>x - of_int n / 10 ^ 18\<bar> \<le> \<bar>of_int n / 10 ^ 18\<bar> / 2 ^ 53"
proof -
  consider "n = 0" | "0 < n" | "n < 0" by linarith
  then show ?thesis
  proof cases
    case 1
    then show ?thesis by (simp add: py_truediv_zero)
  next
    case 2
    with assms have "n < (2 ^ 1024 - 2 ^ 970) * 10 ^ 18" by simp
    from py_truediv_scale_pos [OF 2 this] 2 show ?thesis by auto
  next
    case 3
    then have pos: "0 < - n" by simp
    from 3 assms have "- n < (2 ^ 1024 - 2 ^ 970) * 10 ^ 18" by simp
    from py_truediv_scale_pos [OF pos this] obtain x where
      x: "py_truediv (- n) (10 ^ 18) = Inr x"
         "\<bar>x - of_int (- n) / 10 ^ 18\<bar> \<le> of_int (- n) / 10 ^ 18 / 2 ^ 53"
      by blast
    have res: "py_truediv n (10 ^ 18) = Inr (- x)"
      using py_truediv_negative [OF 3, of "10 ^ 18"] x(1) by simp
    have dist: "\<bar>- x - of_int n / 10 ^ 18\<bar> = \<bar>x - of_int (- n) / 10 ^ 18\<bar>"
      by (simp add: abs_minus_commute)
    have magnitude: "\<bar>(of_int n :: rat) / 10 ^ 18\<bar> = of_int (- n) / 10 ^ 18"
      using 3 by (simp add: abs_if)
    have "\<bar>- x - of_int n / 10 ^ 18\<bar> \<le> \<bar>of_int n / 10 ^ 18\<bar> / 2 ^ 53"
      unfolding dist magnitude by (rule x(2))
    with res show ?thesis by blast
  qed
qed

lemma py_truediv_scale_overflow:
  assumes "(2 ^ 1024 - 2 ^ 970) * 10 ^ 18 \<le> \<bar>n\<bar>"
  shows "py_truediv n (10 ^ 18) = Inl OverflowError"
proof -
  have big: "py_truediv m (10 ^ 18) = Inl OverflowError"
    if "(2 ^ 1024 - 2 ^ 970) * 10 ^ 18 \<le> m" for m :: int
  proof -
    have "(0::int) < (2 ^ 1024 - 2 ^ 970) * 10 ^ 18" by simp
    with that have pos: "0 < m" by linarith
    have "(of_int ((2 ^ 1024 - 2 ^ 970) * 10 ^ 18) :: rat) \<le> of_int m"
      using that by (simp only: of_int_le_iff)
    then have "(2::rat) ^ 1024 - 2 ^ 970 \<le> of_int m / of_int (10 ^ 18)"
      by (simp add: pos_le_divide_eq)
    from py_truediv_overflow [OF pos _ this] show ?thesis by simp
  qed
  show ?thesis
  proof (cases "0 \<le> n")
    case True
    with assms show ?thesis by (intro big) simp
  next
    case False
    then have neg: "n < 0" by simp
    with assms have "py_truediv (- n) (10 ^ 18) = Inl OverflowError" by (intro big) simp
    then show ?thesis using py_truediv_negative [OF neg, of "10 ^ 18"] by simp
  qed
qed

lemma required_mech_requests_raises:
  assumes "py_truediv ((t_now - t_cp) * ratio) (10 ^ 18) = Inl err
           \<or> (\<exists>x. py_truediv ((t_now - t_cp) * ratio) (10 ^ 18) = Inr x)
               \<and> py_truediv (period * ratio) (10 ^ 18) = Inl err"
  shows "required_mech_requests t_now t_cp period ratio = Inl err"
  using assms
  by (auto simp add: required_mech_requests_def LIVENESS_RATIO_SCALE_FACTOR_def)
text \<open>
  C1, as stated with the quotients taken exactly, fails: with a ratio of \<open>10^18 + 1\<close>, a
  liveness period of one second and one second since the last checkpoint, the exact
  quotient \<open>1 + 10^-18\<close> has ceiling 2 and the claimed requirement is 3, but the float
  nearest to the quotient is 1.0, the code requires 2 requests, and with 2 requests since
  the checkpoint it returns \<^verbatim>\<open>True\<close>.
\<close>

theorem C1_exact_quotient_counterexample:
  "fst (is_staking_kpi_met
      \<lparr>read_service_staking_state = STAKED, read_mech_request_count = 102,
       service_info_2 = [7, 100], ts_checkpoint = 1700000000, liveness_period = 1,
       liveness_ratio = 10 ^ 18 + 1, synced_timestamp = 1700000001\<rparr>) = Inr True
   \<and> \<not> (\<lceil>max ((of_int ((1700000001 - 1700000000) * (10 ^ 18 + 1)) :: rat) / 10 ^ 18)
              (of_int (1 * (10 ^ 18 + 1)) / 10 ^ 18)\<rceil> + 1 \<le> (102 - 100 :: int))"
proof -
  have q: "py_truediv 1000000000000000001 (10 ^ 18) = Inr 1"
    using py_truediv_near [of 1000000000000000001 1000000000000000000 0 "2 ^ 52"]
    by (simp add: pow2_def)
  have r: "required_mech_requests 1700000001 1700000000 1 1000000000000000001 = Inr 2"
    using required_mech_requests_floats [of 1700000001 1700000000 1000000000000000001 1 1 1] q
    by simp
  have "fst (is_staking_kpi_met
      \<lparr>read_service_staking_state = STAKED, read_mech_request_count = 102,
       service_info_2 = [7, 100], ts_checkpoint = 1700000000, liveness_period = 1,
       liveness_ratio = 10 ^ 18 + 1, synced_timestamp = 1700000001\<rparr>) = Inr True"
    by (subst is_staking_kpi_met_staked [where ?c0.0 = 100]) (simp_all add: py_index_def r)
  moreover have
    "\<lceil>max ((of_int ((1700000001 - 1700000000) * (10 ^ 18 + 1)) :: rat) / 10 ^ 18)
          (of_int (1 * (10 ^ 18 + 1)) / 10 ^ 18)\<rceil> = 2"
    by (simp add: ceiling_eq_iff)
  ultimately show ?thesis by simp
qed

text \<open>
  C1, amended. For a staked service with the fetched values ratio \<open>R\<close>, period \<open>P\<close>,
  timestamps \<open>now\<close> and \<open>L\<close> (\<open>D = now - L\<close>), request count \<open>C\<close> and count at the last
  checkpoint \<open>C0\<close>: the two quotients \<open>D * R / 10^18\<close> and \<open>P * R / 10^18\<close> are floats,
  \<open>x\<close> and \<open>y\<close>; the required number is \<open>ceil (max x y) + 1\<close>, and the function returns
  \<^verbatim>\<open>True\<close> if and only if \<open>C - C0\<close> is at least that number. When both products are
  below \<open>(2^1024 - 2^970) * 10^18\<close> in absolute value, the divisions return and each float
  is within a relative error of \<open>2^-53\<close> of the exact quotient. When one of the products
  is at least \<open>(2^1024 - 2^970) * 10^18\<close> in absolute value, its division raises
  \<^verbatim>\<open>OverflowError\<close> and so does the function. When both products are non-negative
  multiples of \<open>10^18\<close> with quotients below \<open>2^53\<close> the floats are the exact quotients,
  and the required number is the one of exact arithmetic: for \<open>R = 10^18\<close>, \<open>P = 3600\<close>,
  \<open>D = 3600\<close> it is 3601.
\<close>

theorem C1_required_mech_requests:
  assumes "read_service_staking_state env = STAKED"
    and "py_index (service_info_2 env) 1 = Inr c0"
  shows
    "(let dr = (synced_timestamp env - ts_checkpoint env) * liveness_ratio env;
          pr = liveness_period env * liveness_ratio env;
          since_cp = read_mech_request_count env - c0
      in (py_truediv dr (10 ^ 18) = Inr x \<and> py_truediv pr (10 ^ 18) = Inr y \<longrightarrow>
            fst (is_staking_kpi_met env) = Inr (\<lceil>max x y\<rceil> + 1 \<le> since_cp))
         \<and> (\<bar>dr\<bar> < (2 ^ 1024 - 2 ^ 970) * 10 ^ 18 \<and> \<bar>pr\<bar> < (2 ^ 1024 - 2 ^ 970) * 10 ^ 18 \<longrightarrow>
              (\<exists>u v :: rat. py_truediv dr (10 ^ 18) = Inr u \<and> py_truediv pr (10 ^ 18) = Inr v
                   \<and> \<bar>u - of_int dr / 10 ^ 18\<bar> \<le> \<bar>of_int dr / 10 ^ 18\<bar> / 2 ^ 53
                   \<and> \<bar>v - of_int pr / 10 ^ 18\<bar> \<le> \<bar>of_int pr / 10 ^ 18\<bar> / 2 ^ 53
                   \<and> fst (is_staking_kpi_met env) = Inr (\<lceil>max u v\<rceil> + 1 \<le> since_cp)))
         \<and> ((2 ^ 1024 - 2 ^ 970) * 10 ^ 18 \<le> \<bar>dr\<bar> \<or> (2 ^ 1024 - 2 ^ 970) * 10 ^ 18 \<le> \<bar>pr\<bar> \<longrightarrow>
              fst (is_staking_kpi_met env) = Inl OverflowError)
         \<and> (0 \<le> dr \<and> 10 ^ 18 dvd dr \<and> dr div 10 ^ 18 < 2 ^ 53
              \<and> 0 \<le> pr \<and> 10 ^ 18 dvd pr \<and> pr div 10 ^ 18 < 2 ^ 53 \<longrightarrow>
              fst (is_staking_kpi_met env)
                = Inr (\<lceil>max ((of_int dr :: rat) / 10 ^ 18) (of_int pr / 10 ^ 18)\<rceil> + 1
                        \<le> since_cp)))"
proof -
  define dr where "dr = (synced_timestamp env - ts_checkpoint env) * liveness_ratio env"
  define pr where "pr = liveness_period env * liveness_ratio env"
  define since_cp where "since_cp = read_mech_request_count env - c0"
  have floats: "fst (is_staking_kpi_met env) = Inr (\<lceil>max u v\<rceil> + 1 \<le> since_cp)"
    if "py_truediv dr (10 ^ 18) = Inr u" "py_truediv pr (10 ^ 18) = Inr v" for u v
    using that
      required_mech_requests_floats [of "synced_timestamp env" "ts_checkpoint env"
        "liveness_ratio env" u "liveness_period env" v]
    by (simp add: is_staking_kpi_met_staked [OF assms] dr_def pr_def since_cp_def)
  have raises: "fst (is_staking_kpi_met env) = Inl err"
    if "py_truediv dr (10 ^ 18) = Inl err
        \<or> (\<exists>u. py_truediv dr (10 ^ 18) = Inr u) \<and> py_truediv pr (10 ^ 18) = Inl err"
    for err
    using that
      required_mech_requests_raises [of "synced_timestamp env" "ts_checkpoint env"
        "liveness_ratio env" err "liveness_period env"]
    by (simp add: is_staking_kpi_met_staked [OF assms] dr_def pr_def)
  have near:
    "\<exists>u v :: rat. py_truediv dr (10 ^ 18) = Inr u \<and> py_truediv pr (10 ^ 18) = Inr v
         \<and> \<bar>u - of_int dr / 10 ^ 18\<bar> \<le> \<bar>of_int dr / 10 ^ 18\<bar> / 2 ^ 53
         \<and> \<bar>v - of_int pr / 10 ^ 18\<bar> \<le> \<bar>of_int pr / 10 ^ 18\<bar> / 2 ^ 53
         \<and> fst (is_staking_kpi_met env) = Inr (\<lceil>max u v\<rceil> + 1 \<le> since_cp)"
    if "\<bar>dr\<bar> < (2 ^ 1024 - 2 ^ 970) * 10 ^ 18" "\<bar>pr\<bar> < (2 ^ 1024 - 2 ^ 970) * 10 ^ 18"
  proof -
    from py_truediv_scale_in_range [OF that(1)] obtain u where
      u: "py_truediv dr (10 ^ 18) = Inr u"
         "\<bar>u - of_int dr / 10 ^ 18\<bar> \<le> \<bar>of_int dr / 10 ^ 18\<bar> / 2 ^ 53"
      by blast
    from py_truediv_scale_in_range [OF that(2)] obtain v where
      v: "py_truediv pr (10 ^ 18) = Inr v"
         "\<bar>v - of_int pr / 10 ^ 18\<bar> \<le> \<bar>of_int pr / 10 ^ 18\<bar> / 2 ^ 53"
      by blast
    from floats [OF u(1) v(1)] u v show ?thesis by blast
  qed
  have overflow: "fst (is_staking_kpi_met env) = Inl OverflowError"
    if "(2 ^ 1024 - 2 ^ 970) * 10 ^ 18 \<le> \<bar>dr\<bar> \<or> (2 ^ 1024 - 2 ^ 970) * 10 ^ 18 \<le> \<bar>pr\<bar>"
  proof (cases "(2 ^ 1024 - 2 ^ 970) * 10 ^ 18 \<le> \<bar>dr\<bar>")
    case True
    then have "py_truediv dr (10 ^ 18) = Inl OverflowError"
      by (rule py_truediv_scale_overflow)
    then show ?thesis by (intro raises) simp
  next
    case False
    then have "\<bar>dr\<bar> < (2 ^ 1024 - 2 ^ 970) * 10 ^ 18" by simp
    from py_truediv_scale_in_range [OF this] obtain u where
      u: "py_truediv dr (10 ^ 18) = Inr u" by blast
    from False that have "(2 ^ 1024 - 2 ^ 970) * 10 ^ 18 \<le> \<bar>pr\<bar>" by blast
    then have "py_truediv pr (10 ^ 18) = Inl OverflowError"
      by (rule py_truediv_scale_overflow)
    with u show ?thesis by (intro raises) blast
  qed
  have exact:
    "fst (is_staking_kpi_met env)
       = Inr (\<lceil>max ((of_int dr :: rat) / 10 ^ 18) (of_int pr / 10 ^ 18)\<rceil> + 1 \<le> since_cp)"
    if "0 \<le> dr" "10 ^ 18 dvd dr" "dr div 10 ^ 18 < 2 ^ 53"
      "0 \<le> pr" "10 ^ 18 dvd pr" "pr div 10 ^ 18 < 2 ^ 53"
    using floats [OF py_truediv_multiple [OF that(1,2,3)] py_truediv_multiple [OF that(4,5,6)]] .
  show ?thesis
    unfolding Let_def dr_def [symmetric] pr_def [symmetric] since_cp_def [symmetric]
    using floats [of x y] near overflow exact by blast
qed

theorem C1_required_mech_requests_witness:
  "fst (is_staking_kpi_met
      \<lparr>read_service_staking_state = STAKED, read_mech_request_count = 3701,
       service_info_2 = [7, 100], ts_checkpoint = 1700000000, liveness_period = 3600,
       liveness_ratio = 10 ^ 18, synced_timestamp = 1700003600\<rparr>) = Inr True
   \<and> fst (is_staking_kpi_met
      \<lparr>read_service_staking_state = STAKED, read_mech_request_count = 3700,
       service_info_2 = [7, 100], ts_checkpoint = 1700000000, liveness_period = 3600,
       liveness_ratio = 10 ^ 18, synced_timestamp = 1700003600\<rparr>) = Inr False
   \<and> fst (is_staking_kpi_met
      \<lparr>read_service_staking_state = STAKED, read_mech_request_count = 3700,
       service_info_2 = [7, 100], ts_checkpoint = 1700000000, liveness_period = 3600,
       liveness_ratio = 2 ^ 1024 * 10 ^ 18, synced_timestamp = 1700003600\<rparr>)
     = Inl OverflowError"
proof -
  let ?env = "\<lparr>read_service_staking_state = STAKED, read_mech_request_count = 3700,
       service_info_2 = [7, 100], ts_checkpoint = 1700000000, liveness_period = 3600,
       liveness_ratio = 2 ^ 1024 * 10 ^ 18, synced_timestamp = 1700003600\<rparr>"
  have staked: "read_service_staking_state ?env = STAKED" by simp
  have index: "py_index (service_info_2 ?env) 1 = Inr 100" by (simp add: py_index_def)
  have big: "(2 ^ 1024 - 2 ^ 970) * 10 ^ 18
               \<le> \<bar>(synced_timestamp ?env - ts_checkpoint ?env) * liveness_ratio ?env\<bar>"
    by simp
  note overflow =
    C1_required_mech_requests [where x = 0 and y = 0, OF staked index, unfolded Let_def,
      THEN conjunct2, THEN conjunct2, THEN conjunct1, THEN mp, OF disjI1]
  have raised: "fst (is_staking_kpi_met ?env) = Inl OverflowError"
    using big by (rule overflow)
  have returned:
    "fst (is_staking_kpi_met
        \<lparr>read_service_staking_state = STAKED, read_mech_request_count = 3701,
         service_info_2 = [7, 100], ts_checkpoint = 1700000000, liveness_period = 3600,
         liveness_ratio = 10 ^ 18, synced_timestamp = 1700003600\<rparr>) = Inr True
     \<and> fst (is_staking_kpi_met
        \<lparr>read_service_staking_state = STAKED, read_mech_request_count = 3700,
         service_info_2 = [7, 100], ts_checkpoint = 1700000000, liveness_period = 3600,
         liveness_ratio = 10 ^ 18, synced_timestamp = 1700003600\<rparr>) = Inr False"
    using
      C1_required_mech_requests [of
        "\<lparr>read_service_staking_state = STAKED, read_mech_request_count = 3701,
          service_info_2 = [7, 100], ts_checkpoint = 1700000000, liveness_period = 3600,
          liveness_ratio = 10 ^ 18, synced_timestamp = 1700003600\<rparr>" 100 0 0]
      C1_required_mech_requests [of
        "\<lparr>read_service_staking_state = STAKED, read_mech_request_count = 3700,
          service_info_2 = [7, 100], ts_checkpoint = 1700000000, liveness_period = 3600,
          liveness_ratio = 10 ^ 18, synced_timestamp = 1700003600\<rparr>" 100 0 0]
    by (simp add: py_index_def Let_def)
  from returned raised show ?thesis by blast
qed

text \<open>
  C9. In the first period (\<open>period_count = 0\<close>) \<^verbatim>\<open>async_act\<close> submits a payload with
  \<^verbatim>\<open>stop_trading = False\<close> whatever the parameters and the staking state are, and makes
  no read: neither \<^verbatim>\<open>disable_trading\<close> nor the staking KPI is evaluated. In any other
  period the payload carries \<^verbatim>\<open>disable_trading\<close>, or-ed with the staking KPI when
  \<^verbatim>\<open>stop_trading_if_staking_kpi_met\<close> is set.
\<close>

theorem C9_first_period_keeps_trading:
  "(period_count = 0 \<longrightarrow>
      async_act agent_address period_count params env
        = (Inr \<lparr>sender = agent_address, stop_trading = False\<rparr>, []))
   \<and> (period_count \<noteq> 0 \<and> \<not> stop_trading_if_staking_kpi_met params \<longrightarrow>
      async_act agent_address period_count params env
        = (Inr \<lparr>sender = agent_address, stop_trading = disable_trading params\<rparr>,
           [get_disable_trading, get_stop_trading_if_staking_kpi_met]))
   \<and> (period_count \<noteq> 0 \<and> stop_trading_if_staking_kpi_met params
        \<and> fst (is_staking_kpi_met env) = Inr staking_kpi_met \<longrightarrow>
      async_act agent_address period_count params env
        = (Inr \<lparr>sender = agent_address,
                stop_trading = (disable_trading params \<or> staking_kpi_met)\<rparr>,
           [get_disable_trading, get_stop_trading_if_staking_kpi_met]
             @ snd (is_staking_kpi_met env)))"
  by (cases "is_staking_kpi_met env")
    (auto simp: async_act_def is_first_period_def Let_def)

theorem C9_first_period_keeps_trading_witness:
  "async_act ''agent'' 0 \<lparr>disable_trading = True, stop_trading_if_staking_kpi_met = True\<rparr>
      \<lparr>read_service_staking_state = STAKED, read_mech_request_count = 3701,
       service_info_2 = [7, 100], ts_checkpoint = 1700000000, liveness_period = 3600,
       liveness_ratio = 10 ^ 18, synced_timestamp = 1700003600\<rparr>
     = (Inr \<lparr>sender = ''agent'', stop_trading = False\<rparr>, [])
   \<and> async_act ''agent'' 1 \<lparr>disable_trading = True, stop_trading_if_staking_kpi_met = False\<rparr>
      \<lparr>read_service_staking_state = UNSTAKED, read_mech_request_count = 0,
       service_info_2 = [], ts_checkpoint = 0, liveness_period = 0,
       liveness_ratio = 0, synced_timestamp = 0\<rparr>
     = (Inr \<lparr>sender = ''agent'', stop_trading = True\<rparr>,
        [get_disable_trading, get_stop_trading_if_staking_kpi_met])
   \<and> async_act ''agent'' 1 \<lparr>disable_trading = False, stop_trading_if_staking_kpi_met = True\<rparr>
      \<lparr>read_service_staking_state = UNSTAKED, read_mech_request_count = 0,
       service_info_2 = [], ts_checkpoint = 0, liveness_period = 0,
       liveness_ratio = 0, synced_timestamp = 0\<rparr>
     = (Inr \<lparr>sender = ''agent'', stop_trading = False\<rparr>,
        [get_disable_trading, get_stop_trading_if_staking_kpi_met, check_service_staked])"
  using
    C9_first_period_keeps_trading [of 0 "''agent''"
      "\<lparr>disable_trading = True, stop_trading_if_staking_kpi_met = True\<rparr>"
      "\<lparr>read_service_staking_state = STAKED, read_mech_request_count = 3701,
       service_info_2 = [7, 100], ts_checkpoint = 1700000000, liveness_period = 3600,
       liveness_ratio = 10 ^ 18, synced_timestamp = 1700003600\<rparr>"]
    C9_first_period_keeps_trading [of 1 "''agent''"
      "\<lparr>disable_trading = True, stop_trading_if_staking_kpi_met = False\<rparr>"
      "\<lparr>read_service_staking_state = UNSTAKED, read_mech_request_count = 0,
       service_info_2 = [], ts_checkpoint = 0, liveness_period = 0,
       liveness_ratio = 0, synced_timestamp = 0\<rparr>"]
    C9_first_period_keeps_trading [of 1 "''agent''"
      "\<lparr>disable_trading = False, stop_trading_if_staking_kpi_met = True\<rparr>"
      "\<lparr>read_service_staking_state = UNSTAKED, read_mech_request_count = 0,
       service_info_2 = [], ts_checkpoint = 0, liveness_period = 0,
       liveness_ratio = 0, synced_timestamp = 0\<rparr>" False]
  by (simp add: is_staking_kpi_met_def)


section \<open>Properties of the subscription purchase\<close>

lemma should_purchase_off:
  "\<not> use_nevermined env \<Longrightarrow> should_purchase env self = (False, self)"
  by (simp add: should_purchase_def)

lemma should_purchase_balance_failed:
  "use_nevermined env \<Longrightarrow>
   balance_of env (token_address env) (safe_contract_address env)
     (zero_x_transformer env (no_did_prefixed env (did env))) = None \<Longrightarrow>
   should_purchase env self = (False, self\<lparr>steps := steps self @ [Balance_of]\<rparr>)"
  by (simp add: should_purchase_def get_balance_def)

lemma should_purchase_balance:
  "use_nevermined env \<Longrightarrow>
   balance_of env (token_address env) (safe_contract_address env)
     (zero_x_transformer env (no_did_prefixed env (did env))) = Some b \<Longrightarrow>
   should_purchase env self
     = (b \<le> 0, self\<lparr>steps := steps self @ [Balance_of], balance := b\<rparr>)"
  by (simp add: should_purchase_def get_balance_def)

lemma prepare_approval_tx_failed:
  "build_approval_tx env token spender amount = None \<Longrightarrow>
   prepare_approval_tx env token spender amount self
     = (False, self\<lparr>steps := steps self @ [Build_approval_tx]\<rparr>)"
  by (simp add: prepare_approval_tx_def)

lemma prepare_approval_tx_built:
  "build_approval_tx env token spender amount = Some tx \<Longrightarrow>
   prepare_approval_tx env token spender amount self
     = (True, self\<lparr>steps := steps self @ [Build_approval_tx], approval_tx := tx,
                   multisend_batches := multisend_batches self @
                     [\<lparr>to = token, data = HexBytes tx\<rparr>]\<rparr>)"
  by (simp add: prepare_approval_tx_def)

lemma prepare_order_tx_failed:
  "build_order_tx env params = None \<Longrightarrow>
   prepare_order_tx env params self
     = (False, self\<lparr>steps := steps self @ [Build_order_tx]\<rparr>)"
  by (simp add: prepare_order_tx_def)

lemma prepare_order_tx_built:
  "build_order_tx env params = Some tx \<Longrightarrow>
   prepare_order_tx env params self
     = (True, self\<lparr>steps := steps self @ [Build_order_tx], order_tx := tx,
                   multisend_batches := multisend_batches self @
                     [\<lparr>to = contract_address params, data = HexBytes tx\<rparr>]\<rparr>)"
  by (simp add: prepare_order_tx_def)

lemma get_condition_ids_self:
  "snd (get_condition_ids env seed did_doc self)
     = self\<lparr>agreement_id := get_agreement_id env seed (safe_contract_address env)\<rparr>"
  by (simp add: get_condition_ids_def Let_def split: prod.splits)

lemma get_condition_ids_fst:
  "fst (get_condition_ids env seed did_doc self) = fst (get_condition_ids env seed did_doc self')"
  by (simp add: get_condition_ids_def Let_def split: prod.splits)

lemma get_purchase_params_unresolved:
  "resolve_did env = None \<Longrightarrow>
   get_purchase_params env self = (None, self\<lparr>steps := steps self @ [Resolve_did]\<rparr>)"
  by (simp add: get_purchase_params_def)

lemma get_purchase_params_resolved:
  "resolve_did env = Some did_doc \<Longrightarrow>
   \<exists>params. get_purchase_params env self
     = (Some params,
        self\<lparr>steps := steps self @ [Resolve_did],
             agreement_id :=
               get_agreement_id env (zero_x_transformer env (generate_id env))
                 (safe_contract_address env)\<rparr>)
     \<and> contract_address params = order_address env"
  using get_condition_ids_self
    [of env "zero_x_transformer env (generate_id env)" did_doc
       "self\<lparr>steps := steps self @ [Resolve_did]\<rparr>"]
  by (auto simp add: get_purchase_params_def Let_def split: prod.splits)

lemma get_purchase_params_fst:
  "fst (get_purchase_params env self) = fst (get_purchase_params env self')"
  using get_condition_ids_fst
    [of env "zero_x_transformer env (generate_id env)" _
       "self\<lparr>steps := steps self @ [Resolve_did]\<rparr>"
       "self'\<lparr>steps := steps self' @ [Resolve_did]\<rparr>"]
  by (simp add: get_purchase_params_def Let_def case_prod_beta split: option.splits)

lemma get_purchase_params_None:
  "fst (get_purchase_params env self) = None \<longleftrightarrow> resolve_did env = None"
  by (auto simp add: get_purchase_params_def Let_def split: prod.splits option.splits)

text \<open>The purchase, step by step: what it returns at the first step that fails.\<close>

lemma get_payload_content_off:
  "\<not> use_nevermined env \<Longrightarrow>
   get_payload_content env self = (Some (NO_TX_PAYLOAD env), self)"
  by (simp add: get_payload_content_def should_purchase_off)

lemma get_payload_content_balance_failed:
  "use_nevermined env \<Longrightarrow>
   balance_of env (token_address env) (safe_contract_address env)
     (zero_x_transformer env (no_did_prefixed env (did env))) = None \<Longrightarrow>
   get_payload_content env self
     = (Some (NO_TX_PAYLOAD env), self\<lparr>steps := steps self @ [Balance_of]\<rparr>)"
  by (simp add: get_payload_content_def should_purchase_balance_failed)

lemma get_payload_content_subscribed:
  "use_nevermined env \<Longrightarrow>
   balance_of env (token_address env) (safe_contract_address env)
     (zero_x_transformer env (no_did_prefixed env (did env))) = Some b \<Longrightarrow>
   0 < b \<Longrightarrow>
   get_payload_content env self
     = (Some (NO_TX_PAYLOAD env), self\<lparr>steps := steps self @ [Balance_of], balance := b\<rparr>)"
  by (simp add: get_payload_content_def should_purchase_balance)

lemma get_payload_content_approval_failed:
  "use_nevermined env \<Longrightarrow>
   balance_of env (token_address env) (safe_contract_address env)
     (zero_x_transformer env (no_did_prefixed env (did env))) = Some b \<Longrightarrow>
   b \<le> 0 \<Longrightarrow>
   build_approval_tx env (payment_token env) (lock_payment_condition_address env) (price env)
     = None \<Longrightarrow>
   get_payload_content env self
     = (Some (ERROR_PAYLOAD env),
        self\<lparr>steps := steps self @ [Balance_of, Build_approval_tx], balance := b\<rparr>)"
  by (simp add: get_payload_content_def should_purchase_balance get_approval_params_def
      prepare_approval_tx_failed)

lemma get_payload_content_unresolved:
  "use_nevermined env \<Longrightarrow>
   balance_of env (token_address env) (safe_contract_address env)
     (zero_x_transformer env (no_did_prefixed env (did env))) = Some b \<Longrightarrow>
   b \<le> 0 \<Longrightarrow>
   build_approval_tx env (payment_token env) (lock_payment_condition_address env) (price env)
     = Some a \<Longrightarrow>
   resolve_did env = None \<Longrightarrow>
   get_payload_content env self
     = (Some (ERROR_PAYLOAD env),
        self\<lparr>steps := steps self @ [Balance_of, Build_approval_tx, Resolve_did],
             balance := b, approval_tx := a,
             multisend_batches := multisend_batches self @
               [\<lparr>to = payment_token env, data = HexBytes a\<rparr>]\<rparr>)"
  by (simp add: get_payload_content_def should_purchase_balance get_approval_params_def
      prepare_approval_tx_built get_purchase_params_unresolved)

lemma get_payload_content_order:
  assumes on: "use_nevermined env"
    and bal: "balance_of env (token_address env) (safe_contract_address env)
                (zero_x_transformer env (no_did_prefixed env (did env))) = Some b"
    and b: "b \<le> 0"
    and approval: "build_approval_tx env (payment_token env)
                     (lock_payment_condition_address env) (price env) = Some a"
    and params: "fst (get_purchase_params env self) = Some p"
  shows "get_payload_content env self
     = (let self3 =
              self\<lparr>steps := steps self @ [Balance_of, Build_approval_tx, Resolve_did],
                   balance := b, approval_tx := a,
                   multisend_batches := multisend_batches self @
                     [\<lparr>to = payment_token env, data = HexBytes a\<rparr>],
                   agreement_id :=
                     get_agreement_id env (zero_x_transformer env (generate_id env))
                       (safe_contract_address env)\<rparr>
        in (case build_order_tx env p of
              None \<Rightarrow>
                (Some (ERROR_PAYLOAD env), self3\<lparr>steps := steps self3 @ [Build_order_tx]\<rparr>)
            | Some tx \<Rightarrow>
                (multisend_tx_hex env
                   (multisend_batches self3 @ [\<lparr>to = order_address env, data = HexBytes tx\<rparr>]),
                 self3\<lparr>steps := steps self3 @ [Build_order_tx, Build_multisend],
                       order_tx := tx,
                       multisend_batches := multisend_batches self3 @
                         [\<lparr>to = order_address env, data = HexBytes tx\<rparr>]\<rparr>)))"
proof -
  define self2 where
    "self2 = self\<lparr>balance := b, steps := steps self @ [Balance_of, Build_approval_tx],
                  approval_tx := a,
                  multisend_batches := multisend_batches self @
                    [\<lparr>to = payment_token env, data = HexBytes a\<rparr>]\<rparr>"
  from params obtain did_doc where doc: "resolve_did env = Some did_doc"
    using get_purchase_params_None [of env self] by (cases "resolve_did env") auto
  from get_purchase_params_resolved [OF doc, of self2]
  obtain q where q: "get_purchase_params env self2
       = (Some q,
          self2\<lparr>steps := steps self2 @ [Resolve_did],
                agreement_id :=
                  get_agreement_id env (zero_x_transformer env (generate_id env))
                    (safe_contract_address env)\<rparr>)"
    and address: "contract_address q = order_address env"
    by blast
  have "fst (get_purchase_params env self2) = Some p"
    using params get_purchase_params_fst [of env self2 self] by simp
  with q have qp: "q = p" by simp
  have approved:
    "get_payload_content env self
       = (case get_purchase_params env self2 of
            (None, self3) \<Rightarrow> (Some (ERROR_PAYLOAD env), self3)
          | (Some params, self3) \<Rightarrow>
              (let (result, self4) = prepare_order_tx env params self3
               in if \<not> result then (Some (ERROR_PAYLOAD env), self4)
                  else
                    (multisend_tx_hex env (multisend_batches self4),
                     self4\<lparr>steps := steps self4 @ [Build_multisend]\<rparr>)))"
    using on bal b approval
    by (simp add: get_payload_content_def should_purchase_balance get_approval_params_def
        prepare_approval_tx_built self2_def)
  show ?thesis
  proof (cases "build_order_tx env p")
    case None
    then show ?thesis
      unfolding approved q using address qp
      by (simp add: prepare_order_tx_failed self2_def)
  next
    case (Some tx)
    then show ?thesis
      unfolding approved q using address qp
      by (simp add: prepare_order_tx_built self2_def)
  qed
qed

text \<open>
  C6, as stated, fails on the balance check: when the call of \<^verbatim>\<open>balance_of\<close> fails,
  \<^verbatim>\<open>get_payload_content\<close> returns \<^verbatim>\<open>NO_TX_PAYLOAD\<close>, the sentinel of a purchase that is
  not needed, and not the error payload \<^verbatim>\<open>ERROR_PAYLOAD\<close>.
\<close>

theorem C6_balance_failure_returns_no_tx:
  "balance_of (example_subscription_env True None (Some ''0a'') (Some 1) (Some ''0b'') (Some ''0c''))
     ''nft'' ''safe'' ''0x01'' = None
   \<and> get_payload_content
       (example_subscription_env True None (Some ''0a'') (Some 1) (Some ''0b'') (Some ''0c''))
       OrderSubscriptionBehaviour_init
     = (Some ''no_tx'', OrderSubscriptionBehaviour_init\<lparr>steps := [Balance_of]\<rparr>)
   \<and> ERROR_PAYLOAD
       (example_subscription_env True None (Some ''0a'') (Some 1) (Some ''0b'') (Some ''0c''))
     = ''error''
   \<and> fst (get_payload_content
       (example_subscription_env True None (Some ''0a'') (Some 1) (Some ''0b'') (Some ''0c''))
       OrderSubscriptionBehaviour_init)
     \<noteq> Some (ERROR_PAYLOAD
       (example_subscription_env True None (Some ''0a'') (Some 1) (Some ''0b'') (Some ''0c'')))"
  by (simp add: get_payload_content_def should_purchase_def get_balance_def
      example_subscription_env_def OrderSubscriptionBehaviour_init_def)

text \<open>
  C6, amended. \<^verbatim>\<open>get_payload_content\<close> runs the steps of the purchase in order and stops
  at the first one that fails, returning a sentinel and raising nothing: when subscriptions
  are turned off, when the balance check fails or when the balance is positive it returns
  \<^verbatim>\<open>NO_TX_PAYLOAD\<close>; when the approval transaction cannot be built, when the DID document
  resolves to \<^verbatim>\<open>None\<close> or when the order transaction cannot be built it returns
  \<^verbatim>\<open>ERROR_PAYLOAD\<close>. In each case the steps run are those up to the failing one and no
  later step is run. When every step succeeds the result is the transaction hash built from
  the approval and the order, and a result that is neither sentinel is returned only then.
\<close>

theorem C6_failures_short_circuit:
  "let did_hex = zero_x_transformer env (no_did_prefixed env (did env));
       bal = balance_of env (token_address env) (safe_contract_address env) did_hex;
       approval = build_approval_tx env (payment_token env)
                    (lock_payment_condition_address env) (price env);
       params = fst (get_purchase_params env self);
       payload = fst (get_payload_content env self);
       run = steps (snd (get_payload_content env self))
   in (\<not> use_nevermined env \<longrightarrow>
         payload = Some (NO_TX_PAYLOAD env) \<and> run = steps self)
    \<and> (use_nevermined env \<and> bal = None \<longrightarrow>
         payload = Some (NO_TX_PAYLOAD env) \<and> run = steps self @ [Balance_of])
    \<and> (use_nevermined env \<and> bal = Some b \<and> 0 < b \<longrightarrow>
         payload = Some (NO_TX_PAYLOAD env) \<and> run = steps self @ [Balance_of])
    \<and> (use_nevermined env \<and> bal = Some b \<and> b \<le> 0 \<and> approval = None \<longrightarrow>
         payload = Some (ERROR_PAYLOAD env)
         \<and> run = steps self @ [Balance_of, Build_approval_tx])
    \<and> (use_nevermined env \<and> bal = Some b \<and> b \<le> 0 \<and> approval = Some a
          \<and> resolve_did env = None \<longrightarrow>
         payload = Some (ERROR_PAYLOAD env)
         \<and> run = steps self @ [Balance_of, Build_approval_tx, Resolve_did])
    \<and> (use_nevermined env \<and> bal = Some b \<and> b \<le> 0 \<and> approval = Some a
          \<and> params = Some p \<and> build_order_tx env p = None \<longrightarrow>
         payload = Some (ERROR_PAYLOAD env)
         \<and> run = steps self @ [Balance_of, Build_approval_tx, Resolve_did, Build_order_tx])
    \<and> (use_nevermined env \<and> bal = Some b \<and> b \<le> 0 \<and> approval = Some a
          \<and> params = Some p \<and> build_order_tx env p = Some tx \<longrightarrow>
         payload = multisend_tx_hex env
                     (multisend_batches self @
                        [\<lparr>to = payment_token env, data = HexBytes a\<rparr>,
                         \<lparr>to = order_address env, data = HexBytes tx\<rparr>])
         \<and> run = steps self @
                 [Balance_of, Build_approval_tx, Resolve_did, Build_order_tx, Build_multisend])
    \<and> (payload \<noteq> Some (NO_TX_PAYLOAD env) \<and> payload \<noteq> Some (ERROR_PAYLOAD env) \<longrightarrow>
         use_nevermined env
         \<and> (\<exists>b' a' p' tx'. bal = Some b' \<and> b' \<le> 0 \<and> approval = Some a'
               \<and> params = Some p' \<and> build_order_tx env p' = Some tx'))
    \<and> (params = None \<longleftrightarrow> resolve_did env = None)"
proof -
  let ?bal = "balance_of env (token_address env) (safe_contract_address env)
                (zero_x_transformer env (no_did_prefixed env (did env)))"
  let ?approval = "build_approval_tx env (payment_token env)
                     (lock_payment_condition_address env) (price env)"
  let ?params = "fst (get_purchase_params env self)"
  let ?r = "get_payload_content env self"
  have off: "fst ?r = Some (NO_TX_PAYLOAD env) \<and> steps (snd ?r) = steps self"
    if "\<not> use_nevermined env"
    using that by (simp add: get_payload_content_off)
  have no_balance:
    "fst ?r = Some (NO_TX_PAYLOAD env) \<and> steps (snd ?r) = steps self @ [Balance_of]"
    if "use_nevermined env" "?bal = None"
    using that by (simp add: get_payload_content_balance_failed)
  have subscribed:
    "fst ?r = Some (NO_TX_PAYLOAD env) \<and> steps (snd ?r) = steps self @ [Balance_of]"
    if "use_nevermined env" "?bal = Some b" "0 < b" for b
    using that by (simp add: get_payload_content_subscribed)
  have no_approval:
    "fst ?r = Some (ERROR_PAYLOAD env)
     \<and> steps (snd ?r) = steps self @ [Balance_of, Build_approval_tx]"
    if "use_nevermined env" "?bal = Some b" "b \<le> 0" "?approval = None" for b
    using that by (simp add: get_payload_content_approval_failed)
  have no_doc:
    "fst ?r = Some (ERROR_PAYLOAD env)
     \<and> steps (snd ?r) = steps self @ [Balance_of, Build_approval_tx, Resolve_did]"
    if "use_nevermined env" "?bal = Some b" "b \<le> 0" "?approval = Some a"
      "resolve_did env = None" for b a
    using that by (simp add: get_payload_content_unresolved)
  have no_order:
    "fst ?r = Some (ERROR_PAYLOAD env)
     \<and> steps (snd ?r)
         = steps self @ [Balance_of, Build_approval_tx, Resolve_did, Build_order_tx]"
    if "use_nevermined env" "?bal = Some b" "b \<le> 0" "?approval = Some a"
      "?params = Some p" "build_order_tx env p = None" for b a p
    using that(6) by (simp add: get_payload_content_order [OF that(1-5)])
  have built:
    "fst ?r = multisend_tx_hex env
                (multisend_batches self @
                   [\<lparr>to = payment_token env, data = HexBytes a\<rparr>,
                    \<lparr>to = order_address env, data = HexBytes tx\<rparr>])
     \<and> steps (snd ?r)
         = steps self @
             [Balance_of, Build_approval_tx, Resolve_did, Build_order_tx, Build_multisend]"
    if "use_nevermined env" "?bal = Some b" "b \<le> 0" "?approval = Some a"
      "?params = Some p" "build_order_tx env p = Some tx" for b a p tx
    using that(6) by (simp add: get_payload_content_order [OF that(1-5)])
  have doc: "?params = None \<longleftrightarrow> resolve_did env = None"
    by (rule get_purchase_params_None)
  have only:
    "use_nevermined env
     \<and> (\<exists>b' a' p' tx'. ?bal = Some b' \<and> b' \<le> 0 \<and> ?approval = Some a'
           \<and> ?params = Some p' \<and> build_order_tx env p' = Some tx')"
    if no_tx: "fst ?r \<noteq> Some (NO_TX_PAYLOAD env)"
      and no_error: "fst ?r \<noteq> Some (ERROR_PAYLOAD env)"
  proof -
    have on: "use_nevermined env"
      using off no_tx by blast
    obtain b' where bal: "?bal = Some b'"
      using no_balance [OF on] no_tx by (cases ?bal) auto
    have b': "b' \<le> 0"
      using subscribed [OF on bal] no_tx by (cases "0 < b'") auto
    obtain a' where approval: "?approval = Some a'"
      using no_approval [OF on bal b'] no_error by (cases ?approval) auto
    obtain p' where params: "?params = Some p'"
      using no_doc [OF on bal b' approval] no_error doc by (cases ?params) auto
    obtain tx' where "build_order_tx env p' = Some tx'"
      using no_order [OF on bal b' approval params] no_error
      by (cases "build_order_tx env p'") auto
    with on bal b' approval params show ?thesis
      by blast
  qed
  show ?thesis
    unfolding Let_def
    using off no_balance subscribed no_approval no_doc no_order built only doc
    by blast
qed

theorem C6_failures_short_circuit_witness:
  "get_payload_content (example_subscription_env False None None None None None)
     OrderSubscriptionBehaviour_init
     = (Some ''no_tx'', OrderSubscriptionBehaviour_init)
   \<and> fst (get_payload_content (example_subscription_env True None None None None None)
       OrderSubscriptionBehaviour_init) = Some ''no_tx''
   \<and> steps (snd (get_payload_content (example_subscription_env True None None None None None)
       OrderSubscriptionBehaviour_init)) = [Balance_of]
   \<and> fst (get_payload_content
       (example_subscription_env True (Some 1) (Some ''0a'') (Some 1) (Some ''0b'') (Some ''0c''))
       OrderSubscriptionBehaviour_init) = Some ''no_tx''
   \<and> steps (snd (get_payload_content
       (example_subscription_env True (Some 1) (Some ''0a'') (Some 1) (Some ''0b'') (Some ''0c''))
       OrderSubscriptionBehaviour_init)) = [Balance_of]
   \<and> fst (get_payload_content
       (example_subscription_env True (Some 0) None (Some 1) (Some ''0b'') (Some ''0c''))
       OrderSubscriptionBehaviour_init) = Some ''error''
   \<and> steps (snd (get_payload_content
       (example_subscription_env True (Some 0) None (Some 1) (Some ''0b'') (Some ''0c''))
       OrderSubscriptionBehaviour_init)) = [Balance_of, Build_approval_tx]
   \<and> fst (get_payload_content
       (example_subscription_env True (Some 0) (Some ''0a'') None (Some ''0b'') (Some ''0c''))
       OrderSubscriptionBehaviour_init) = Some ''error''
   \<and> steps (snd (get_payload_content
       (example_subscription_env True (Some 0) (Some ''0a'') None (Some ''0b'') (Some ''0c''))
       OrderSubscriptionBehaviour_init)) = [Balance_of, Build_approval_tx, Resolve_did]
   \<and> fst (get_payload_content
       (example_subscription_env True (Some 0) (Some ''0a'') (Some 1) None (Some ''0c''))
       OrderSubscriptionBehaviour_init) = Some ''error''
   \<and> steps (snd (get_payload_content
       (example_subscription_env True (Some 0) (Some ''0a'') (Some 1) None (Some ''0c''))
       OrderSubscriptionBehaviour_init))
     = [Balance_of, Build_approval_tx, Resolve_did, Build_order_tx]
   \<and> fst (get_purchase_params
       (example_subscription_env True (Some 0) (Some ''0a'') (Some 1) (Some ''0b'') (Some ''0c''))
       OrderSubscriptionBehaviour_init)
     = Some \<lparr>purchase_params.agreement_id = ''0xid'', purchase_params.did = ''0x01'',
             condition_ids = [''lock_seed'', ''transfer_seed'', ''escrow_seed''],
             consumer = ''safe'', index = 0, time_outs = [0, 0, 0], time_locks = [0, 0, 0],
             reward_address = ''escrow'', receivers = [''receiver''], amounts = [1000000],
             contract_address = ''order'', purchase_params.token_address = ''usdc''\<rparr>
   \<and> fst (get_payload_content
       (example_subscription_env True (Some 0) (Some ''0a'') (Some 1) (Some ''0b'') (Some ''0c''))
       OrderSubscriptionBehaviour_init) = Some ''0c''
   \<and> steps (snd (get_payload_content
       (example_subscription_env True (Some 0) (Some ''0a'') (Some 1) (Some ''0b'') (Some ''0c''))
       OrderSubscriptionBehaviour_init))
     = [Balance_of, Build_approval_tx, Resolve_did, Build_order_tx, Build_multisend]"
  using
    C6_failures_short_circuit
      [where env = "example_subscription_env False None None None None None"
         and self = OrderSubscriptionBehaviour_init]
    C6_failures_short_circuit
      [where env = "example_subscription_env True None None None None None"
         and self = OrderSubscriptionBehaviour_init]
    C6_failures_short_circuit
      [where env = "example_subscription_env True (Some 1) (Some ''0a'') (Some 1) (Some ''0b'')
                      (Some ''0c'')"
         and self = OrderSubscriptionBehaviour_init and b = 1]
    C6_failures_short_circuit
      [where env = "example_subscription_env True (Some 0) None (Some 1) (Some ''0b'')
                      (Some ''0c'')"
         and self = OrderSubscriptionBehaviour_init and b = 0]
    C6_failures_short_circuit
      [where env = "example_subscription_env True (Some 0) (Some ''0a'') None (Some ''0b'')
                      (Some ''0c'')"
         and self = OrderSubscriptionBehaviour_init and b = 0 and a = "''0a''"]
    C6_failures_short_circuit
      [where env = "example_subscription_env True (Some 0) (Some ''0a'') (Some 1) None
                      (Some ''0c'')"
         and self = OrderSubscriptionBehaviour_init and b = 0 and a = "''0a''"
         and p = "\<lparr>purchase_params.agreement_id = ''0xid'', purchase_params.did = ''0x01'',
             condition_ids = [''lock_seed'', ''transfer_seed'', ''escrow_seed''],
             consumer = ''safe'', index = 0, time_outs = [0, 0, 0], time_locks = [0, 0, 0],
             reward_address = ''escrow'', receivers = [''receiver''], amounts = [1000000],
             contract_address = ''order'', purchase_params.token_address = ''usdc''\<rparr>"]
    C6_failures_short_circuit
      [where env = "example_subscription_env True (Some 0) (Some ''0a'') (Some 1) (Some ''0b'')
                      (Some ''0c'')"
         and self = OrderSubscriptionBehaviour_init and b = 0 and a = "''0a''"
         and tx = "''0b''"
         and p = "\<lparr>purchase_params.agreement_id = ''0xid'', purchase_params.did = ''0x01'',
             condition_ids = [''lock_seed'', ''transfer_seed'', ''escrow_seed''],
             consumer = ''safe'', index = 0, time_outs = [0, 0, 0], time_locks = [0, 0, 0],
             reward_address = ''escrow'', receivers = [''receiver''], amounts = [1000000],
             contract_address = ''order'', purchase_params.token_address = ''usdc''\<rparr>"]
  by (simp add: get_payload_content_def should_purchase_def get_balance_def
      prepare_approval_tx_def prepare_order_tx_def get_purchase_params_def
      get_condition_ids_def get_approval_params_def example_subscription_env_def
      OrderSubscriptionBehaviour_init_def LOCK_CONDITION_INDEX_def Let_def)
end
